theory Spec2Isabelle
  imports Complex_Main "HOL-Library.Char_ord" "HOL-Library.List_Lexorder"
begin

section \<open>JavaScript strings and objects\<close>

text \<open>
  Strings of the content script are modelled as \<^typ>\<open>string\<close>: a character is a code
  unit below 256, and a string that holds a larger code unit has no counterpart here.
  On these code units the platform's string methods are written out in full:
  \<open>toLowerCase\<close> maps the letters A to Z and the upper-case letters from 0xC0 to 0xDE
  (0xD7, the multiplication sign, is no letter) to the code unit 32 above; \<open>trim\<close>
  removes tab, line feed, vertical tab, form feed, carriage return, space and the
  no-break space 0xA0.
\<close>

definition upperCaseUnits :: "char list" where
  "upperCaseUnits =
     ''ABCDEFGHIJKLMNOPQRSTUVWXYZ'' @
     [CHR 0xC0, CHR 0xC1, CHR 0xC2, CHR 0xC3, CHR 0xC4, CHR 0xC5, CHR 0xC6, CHR 0xC7,
      CHR 0xC8, CHR 0xC9, CHR 0xCA, CHR 0xCB, CHR 0xCC, CHR 0xCD, CHR 0xCE, CHR 0xCF,
      CHR 0xD0, CHR 0xD1, CHR 0xD2, CHR 0xD3, CHR 0xD4, CHR 0xD5, CHR 0xD6,
      CHR 0xD8, CHR 0xD9, CHR 0xDA, CHR 0xDB, CHR 0xDC, CHR 0xDD, CHR 0xDE]"

definition lowerCaseUnits :: "char list" where
  "lowerCaseUnits =
     ''abcdefghijklmnopqrstuvwxyz'' @
     [CHR 0xE0, CHR 0xE1, CHR 0xE2, CHR 0xE3, CHR 0xE4, CHR 0xE5, CHR 0xE6, CHR 0xE7,
      CHR 0xE8, CHR 0xE9, CHR 0xEA, CHR 0xEB, CHR 0xEC, CHR 0xED, CHR 0xEE, CHR 0xEF,
      CHR 0xF0, CHR 0xF1, CHR 0xF2, CHR 0xF3, CHR 0xF4, CHR 0xF5, CHR 0xF6,
      CHR 0xF8, CHR 0xF9, CHR 0xFA, CHR 0xFB, CHR 0xFC, CHR 0xFD, CHR 0xFE]"

definition toLowerChar :: "char \<Rightarrow> char" where
  "toLowerChar c =
     (case map_of (zip upperCaseUnits lowerCaseUnits) c of
        Some l \<Rightarrow> l
      | None \<Rightarrow> c)"

definition toLowerCase :: "string \<Rightarrow> string" where
  "toLowerCase s = map toLowerChar s"

definition isWhitespace :: "char \<Rightarrow> bool" where
  "isWhitespace c =
     (c \<in> set [CHR 0x09, CHR 0x0A, CHR 0x0B, CHR 0x0C, CHR 0x0D, CHR '' '', CHR 0xA0])"

definition js_trim :: "string \<Rightarrow> string" where
  "js_trim s = rev (dropWhile isWhitespace (rev (dropWhile isWhitespace s)))"

text \<open>\<open>s.split(d)\<close> for a one-character separator: the pieces of the rest, with the
  character put in front of the first piece, or a new empty piece in front when the
  character is the separator. The result is never the empty list.\<close>

fun js_split :: "char \<Rightarrow> string \<Rightarrow> string list" where
  "js_split d [] = [[]]"
| "js_split d (c # cs) =
     (case js_split d cs of
        [] \<Rightarrow> (if c = d then [[], []] else [[c]])
      | piece # pieces \<Rightarrow> (if c = d then [] # piece # pieces else (c # piece) # pieces))"

text \<open>\<open>xs.join(sep)\<close>.\<close>

fun js_join :: "string \<Rightarrow> string list \<Rightarrow> string" where
  "js_join sep [] = []"
| "js_join sep [x] = x"
| "js_join sep (x # y # ys) = x @ sep @ js_join sep (y # ys)"

fun startsWith :: "string \<Rightarrow> string \<Rightarrow> bool" where
  "startsWith s [] = True"
| "startsWith [] (p # ps) = False"
| "startsWith (c # cs) (p # ps) = (c = p \<and> startsWith cs ps)"

text \<open>\<open>s.includes(sub)\<close>.\<close>

fun js_includes :: "string \<Rightarrow> string \<Rightarrow> bool" where
  "js_includes [] sub = (sub = [])"
| "js_includes (c # cs) sub = (startsWith (c # cs) sub \<or> js_includes cs sub)"

text \<open>\<open>s.indexOf(c)\<close> for a character; \<open>xs.indexOf(x)\<close> for an array: \<open>-1\<close> when absent.\<close>

fun indexFrom :: "int \<Rightarrow> 'a list \<Rightarrow> 'a \<Rightarrow> int" where
  "indexFrom i [] x = -1"
| "indexFrom i (y # ys) x = (if y = x then i else indexFrom (i + 1) ys x)"

definition js_indexOf :: "'a list \<Rightarrow> 'a \<Rightarrow> int" where
  "js_indexOf xs x = indexFrom 0 xs x"

text \<open>The decimal numeral of a natural number, as a template literal prints it.\<close>

definition digitChar :: "nat \<Rightarrow> char" where
  "digitChar d = ''0123456789'' ! d"

fun toStringNat :: "nat \<Rightarrow> string" where
  "toStringNat n =
     (if n < 10 then [digitChar n] else toStringNat (n div 10) @ [digitChar (n mod 10)])"

definition newline :: string where
  "newline = [CHR 0x0A]"

text \<open>
  An object with string keys is an association list in insertion order, which is the
  order \<open>Object.entries\<close>, \<open>Object.keys\<close> and \<open>Object.values\<close> enumerate (no key of
  the script is an array index). A style mapping maps property names to values.
\<close>

type_synonym styles = "(string \<times> string) list"

text \<open>\<open>obj[k] = v\<close>: an existing key keeps its place, a new key goes last.\<close>

fun obj_set :: "('k \<times> 'v) list \<Rightarrow> 'k \<Rightarrow> 'v \<Rightarrow> ('k \<times> 'v) list" where
  "obj_set [] k v = [(k, v)]"
| "obj_set ((k', v') # kvs) k v =
     (if k' = k then (k, v) # kvs else (k', v') # obj_set kvs k v)"

text \<open>\<open>Object.assign(target, source)\<close>.\<close>

definition obj_assign :: "('k \<times> 'v) list \<Rightarrow> ('k \<times> 'v) list \<Rightarrow> ('k \<times> 'v) list" where
  "obj_assign target source = foldl (\<lambda>t (k, v). obj_set t k v) target source"

text \<open>
  \<open>Array.prototype.sort(compare)\<close> is stable. For the comparison function
  \<open>([a], [b]) => a.localeCompare(b)\<close> the collation of the platform is a parameter
  \<open>localeCompare\<close>, whose sign orders two keys; the sort is the stable insertion sort.
\<close>

fun js_insert :: "(string \<Rightarrow> string \<Rightarrow> int) \<Rightarrow> string \<times> 'v \<Rightarrow> (string \<times> 'v) list \<Rightarrow> (string \<times> 'v) list" where
  "js_insert localeCompare x [] = [x]"
| "js_insert localeCompare x (y # ys) =
     (if localeCompare (fst x) (fst y) \<le> 0 then x # y # ys
      else y # js_insert localeCompare x ys)"

definition js_sort :: "(string \<Rightarrow> string \<Rightarrow> int) \<Rightarrow> (string \<times> 'v) list \<Rightarrow> (string \<times> 'v) list" where
  "js_sort localeCompare xs = foldr (js_insert localeCompare) xs []"

text \<open>A collation that compares code units, as the root collation does on the lower-case
  letters, digits and hyphens of CSS property names.\<close>

definition codeUnitCompare :: "string \<Rightarrow> string \<Rightarrow> int" where
  "codeUnitCompare a b = (if a < b then -1 else if a = b then 0 else 1)"

section \<open>CSSAnalyzer: validity of a value and categorisation\<close>

definition invalidValues :: "string list" where
  "invalidValues =
     [''auto'', ''normal'', ''none'', ''initial'', ''inherit'', ''unset'',
      ''0px'', ''0'', ''rgba(0, 0, 0, 0)'', ''transparent'']"

text \<open>\<open>isValidCSSValue(value)\<close>: values are strings; the empty string is falsy.\<close>

definition isValidCSSValue :: "string \<Rightarrow> bool" where
  "isValidCSSValue v = (if v = [] then False else js_trim v \<notin> set invalidValues)"

definition cssCategories :: "(string \<times> string list) list" where
  "cssCategories =
    [(''layout'', [''display'', ''position'', ''top'', ''right'', ''bottom'', ''left'', ''float'',
        ''clear'', ''z-index'']),
     (''boxModel'', [''width'', ''height'', ''min-width'', ''min-height'', ''max-width'',
        ''max-height'', ''margin'', ''margin-top'', ''margin-right'', ''margin-bottom'',
        ''margin-left'', ''padding'', ''padding-top'', ''padding-right'', ''padding-bottom'',
        ''padding-left'']),
     (''border'', [''border'', ''border-width'', ''border-style'', ''border-color'',
        ''border-radius'', ''border-top'', ''border-right'', ''border-bottom'', ''border-left'']),
     (''background'', [''background'', ''background-color'', ''background-image'',
        ''background-size'', ''background-position'', ''background-repeat'']),
     (''typography'', [''font-family'', ''font-size'', ''font-weight'', ''line-height'', ''color'',
        ''text-align'', ''text-decoration'', ''letter-spacing'']),
     (''flexGrid'', [''flex'', ''flex-direction'', ''justify-content'', ''align-items'', ''grid'',
        ''grid-template-columns'', ''grid-template-rows'', ''gap'']),
     (''effects'', [''opacity'', ''transform'', ''transition'', ''animation'', ''box-shadow'',
        ''filter''])]"

text \<open>The inner loop of \<open>categorizeStyles\<close>: \<open>categoryData[prop] = value\<close> for the
  properties of one category that the snapshot gives a valid value.\<close>

definition categoryDataOf :: "styles \<Rightarrow> string list \<Rightarrow> styles" where
  "categoryDataOf computedStyle properties =
     foldl (\<lambda>categoryData prop.
              case map_of computedStyle prop of
                None \<Rightarrow> categoryData
              | Some v \<Rightarrow>
                  if v \<noteq> [] \<and> isValidCSSValue v then obj_set categoryData prop v
                  else categoryData)
       [] properties"

definition categorizeStyles :: "styles \<Rightarrow> (string \<times> styles) list" where
  "categorizeStyles computedStyle =
     foldl (\<lambda>categorized (category, properties).
              if length (categoryDataOf computedStyle properties) > 0
              then obj_set categorized category (categoryDataOf computedStyle properties)
              else categorized)
       [] cssCategories"

section \<open>ClipboardManager: the CSS text\<close>

text \<open>The filter of \<open>generateCSSText\<close>, which compares the value as it is.\<close>

definition keepDeclaration :: "string \<times> string \<Rightarrow> bool" where
  "keepDeclaration pv =
     (snd pv \<noteq> [] \<and> snd pv \<noteq> ''none'' \<and> snd pv \<noteq> ''auto'' \<and> snd pv \<noteq> ''normal'' \<and>
      snd pv \<noteq> ''initial'' \<and> snd pv \<noteq> ''0px'' \<and> snd pv \<noteq> ''rgba(0, 0, 0, 0)'')"

definition cssDeclarations :: "(string \<Rightarrow> string \<Rightarrow> int) \<Rightarrow> styles \<Rightarrow> styles" where
  "cssDeclarations localeCompare sty = js_sort localeCompare (filter keepDeclaration sty)"

definition declarationLine :: "string \<times> string \<Rightarrow> string" where
  "declarationLine pv = ''  '' @ fst pv @ '': '' @ snd pv @ '';''"

definition cssLines :: "(string \<Rightarrow> string \<Rightarrow> int) \<Rightarrow> styles \<Rightarrow> string list" where
  "cssLines localeCompare sty = map declarationLine (cssDeclarations localeCompare sty)"

definition generateCSSText :: "(string \<Rightarrow> string \<Rightarrow> int) \<Rightarrow> styles \<Rightarrow> string \<Rightarrow> string" where
  "generateCSSText localeCompare sty selector =
     (if length sty = 0 then []
      else if length (cssLines localeCompare sty) = 0 then []
      else if selector \<noteq> []
        then selector @ '' {'' @ newline @ js_join newline (cssLines localeCompare sty) @ newline @ ''}''
        else ''{'' @ newline @ js_join newline (cssLines localeCompare sty) @ newline @ ''}'')"

section \<open>The page: nodes, computed styles, selector matching\<close>

text \<open>
  What reading \<open>tagName\<close>, \<open>id\<close> or \<open>className\<close> of a node gives: nothing, a
  string, or an object that is no string, kept with the text that a template literal
  prints for it. The \<open>className\<close> of an SVG element is such an object (an
  \<open>SVGAnimatedString\<close>), and so is any of the three on a form that has a control of
  that name. An object is truthy and has neither \<open>split\<close> nor \<open>toLowerCase\<close>.
\<close>

datatype jsValue = Undefined | Str string | Obj string

definition truthy :: "jsValue \<Rightarrow> bool" where
  "truthy v = (case v of Undefined \<Rightarrow> False | Str s \<Rightarrow> s \<noteq> [] | Obj d \<Rightarrow> True)"


definition isObject :: "jsValue \<Rightarrow> bool" where
  "isObject v = (case v of Undefined \<Rightarrow> False | Str s \<Rightarrow> False | Obj d \<Rightarrow> True)"

text \<open>The value inside a template literal, and \<open>v || ''\<close>.\<close>

definition toStr :: "jsValue \<Rightarrow> string" where
  "toStr v = (case v of Undefined \<Rightarrow> ''undefined'' | Str s \<Rightarrow> s | Obj d \<Rightarrow> d)"

definition orEmpty :: "jsValue \<Rightarrow> jsValue" where
  "orEmpty v = (if truthy v then v else Str [])"

text \<open>
  Nodes are referred to by address. A node is an element when it has a tag name of
  either kind; the document and fragments have none. \<open>parentNode\<close>, \<open>children\<close> (the
  element children) and \<open>style\<close> are the node's own: \<open>element.style\<close> gives the text of
  the declarations and its indexed properties with their values.
\<close>

type_synonym ref = nat

record cssStyleDeclaration =
  cssText :: string
  items :: styles

record node =
  tagName :: jsValue
  ident :: jsValue
  className :: jsValue
  parentNode :: "ref option"
  children :: "ref list"
  style :: "cssStyleDeclaration option"

text \<open>
  What the platform answers: \<open>window.getComputedStyle(element)\<close> throws (\<open>Inl\<close>) or
  gives a declaration whose \<open>getPropertyValue\<close> may throw;
  \<open>document.querySelectorAll(selector)\<close> throws on an invalid selector or gives the
  number of matches.
\<close>

record page =
  nodes :: "ref \<Rightarrow> node"
  body :: "ref option"
  windowGetComputedStyle :: "ref \<Rightarrow> string + (string \<Rightarrow> string + string)"
  querySelectorAll :: "string \<Rightarrow> string + nat"

definition parentElement :: "page \<Rightarrow> ref \<Rightarrow> ref option" where
  "parentElement P c =
     (case parentNode (nodes P c) of
        None \<Rightarrow> None
      | Some p \<Rightarrow> (if tagName (nodes P p) \<noteq> Undefined then Some p else None))"

section \<open>StyleCache\<close>

text \<open>
  The two weak maps are keyed by node address. \<open>styleReads\<close> counts the calls of
  \<open>window.getComputedStyle\<close>, so that a theorem can say that a call made none.
  \<open>Date.now()\<close> is the argument \<open>now\<close>: one reading for one call of a method.
\<close>

record styleCache =
  cache :: "ref \<Rightarrow> (styles \<times> int) option"
  selectorCache :: "ref \<Rightarrow> string option"
  lastClearTime :: int
  styleReads :: nat

definition maxCacheAge :: int where
  "maxCacheAge = 30000"

definition importantProps :: "string list" where
  "importantProps =
     [''display'', ''position'', ''top'', ''right'', ''bottom'', ''left'', ''float'', ''clear'',
      ''z-index'',
      ''width'', ''height'', ''min-width'', ''min-height'', ''max-width'', ''max-height'',
      ''margin'', ''margin-top'', ''margin-right'', ''margin-bottom'', ''margin-left'',
      ''padding'', ''padding-top'', ''padding-right'', ''padding-bottom'', ''padding-left'',
      ''border'', ''border-width'', ''border-style'', ''border-color'', ''border-radius'',
      ''background'', ''background-color'', ''background-image'', ''background-size'',
      ''font-family'', ''font-size'', ''font-weight'', ''line-height'', ''color'', ''text-align'',
      ''flex'', ''flex-direction'', ''justify-content'', ''align-items'', ''grid'',
      ''opacity'', ''transform'', ''transition'', ''box-shadow'']"

definition cacheImportantProperties :: "(string \<Rightarrow> string + string) \<Rightarrow> styles" where
  "cacheImportantProperties computedStyle =
     foldl (\<lambda>cached prop.
              case computedStyle prop of
                Inl err \<Rightarrow> cached
              | Inr v \<Rightarrow> (if v \<noteq> [] then obj_set cached prop v else cached))
       [] importantProps"

text \<open>
  The first statement of \<open>getComputedStyle\<close>: an element the cache does not hold is
  read from the platform and stored with the time. The error is the exception that
  leaves the callback; the read is counted either way.
\<close>

definition fillCache :: "page \<Rightarrow> int \<Rightarrow> ref \<Rightarrow> styleCache \<Rightarrow> string option \<times> styleCache" where
  "fillCache P now e sc =
     (case cache sc e of
        Some entry \<Rightarrow> (None, sc)
      | None \<Rightarrow>
          (case windowGetComputedStyle P e of
             Inl err \<Rightarrow> (Some err, sc\<lparr>styleReads := Suc (styleReads sc)\<rparr>)
           | Inr computedStyle \<Rightarrow>
               (None, sc\<lparr>cache := (cache sc)(e \<mapsto> (cacheImportantProperties computedStyle, now)),
                          styleReads := Suc (styleReads sc)\<rparr>)))"

text \<open>
  \<open>getComputedStyle(element)\<close>. For \<open>null\<close> the weak map holds nothing and the
  platform's read throws, so the result is the empty mapping of the failure branch.
\<close>

function getComputedStyle :: "page \<Rightarrow> int \<Rightarrow> ref option \<Rightarrow> styleCache \<Rightarrow> styles \<times> styleCache" where
  "getComputedStyle P now None sc = ([], sc\<lparr>styleReads := Suc (styleReads sc)\<rparr>)"
| "getComputedStyle P now (Some e) sc =
     (case fst (fillCache P now e sc) of
        Some err \<Rightarrow> ([], snd (fillCache P now e sc))
      | None \<Rightarrow>
          (case cache (snd (fillCache P now e sc)) e of
             None \<Rightarrow> ([], snd (fillCache P now e sc))
           | Some cached \<Rightarrow>
               (if now - snd cached > maxCacheAge
                then getComputedStyle P now (Some e)
                       ((snd (fillCache P now e sc))
                          \<lparr>cache := (cache (snd (fillCache P now e sc)))(e := None)\<rparr>)
                else (fst cached, snd (fillCache P now e sc)))))"
  by pat_completeness auto

text \<open>A stale entry is what makes the method call itself, and the call deletes it.\<close>

definition staleEntry :: "int \<Rightarrow> ref option \<Rightarrow> styleCache \<Rightarrow> bool" where
  "staleEntry now el sc =
     (case el of
        None \<Rightarrow> False
      | Some e \<Rightarrow> (case cache sc e of None \<Rightarrow> False | Some cached \<Rightarrow> now - snd cached > maxCacheAge))"

termination getComputedStyle
proof (relation "measure (\<lambda>(P, now, el, sc). if staleEntry now el sc then 1 else 0)")
  show "wf (measure (\<lambda>(P, now, el, sc). if staleEntry now el sc then 1 else (0::nat)))"
    by simp
next
  fix P :: page and now :: int and e :: ref and sc :: styleCache and cached :: "styles \<times> int"
  assume ok: "fst (fillCache P now e sc) = None"
    and got: "cache (snd (fillCache P now e sc)) e = Some cached"
    and old: "maxCacheAge < now - snd cached"
  have "staleEntry now (Some e) sc"
  proof (cases "cache sc e")
    case None
    with got old show ?thesis
      by (auto simp: fillCache_def maxCacheAge_def split: sum.splits)
  next
    case (Some entry)
    with got old show ?thesis
      by (simp add: fillCache_def staleEntry_def)
  qed
  moreover have "\<not> staleEntry now (Some e)
      ((snd (fillCache P now e sc))\<lparr>cache := (cache (snd (fillCache P now e sc)))(e := None)\<rparr>)"
    by (simp add: staleEntry_def)
  ultimately show "((P, now, Some e,
        (snd (fillCache P now e sc))\<lparr>cache := (cache (snd (fillCache P now e sc)))(e := None)\<rparr>),
       (P, now, Some e, sc))
      \<in> measure (\<lambda>(P, now, el, sc). if staleEntry now el sc then 1 else 0)"
    by simp
qed

text \<open>
  The loop of \<open>generateOptimizedSelector\<close>:
  \<open>while (current && current !== document.body && depth < 3)\<close>, with \<open>path.unshift\<close>.
  Calling \<open>toLowerCase\<close> on the tag name throws unless the tag name is a string.
\<close>

definition nthChildSuffix :: "page \<Rightarrow> ref \<Rightarrow> string" where
  "nthChildSuffix P c =
     (case parentNode (nodes P c) of
        None \<Rightarrow> []
      | Some p \<Rightarrow>
          (let siblings = children (nodes P p) in
           if length siblings > 1 \<and> length siblings \<le> 10
           then '':nth-child('' @ toStringNat (nat (js_indexOf siblings c + 1)) @ '')''
           else []))"

function buildPath :: "page \<Rightarrow> ref option \<Rightarrow> nat \<Rightarrow> string list \<Rightarrow> string + string list" where
  "buildPath P current depth path =
     (case current of
        None \<Rightarrow> Inr path
      | Some c \<Rightarrow>
          (if Some c \<noteq> body P \<and> depth < 3
           then (case tagName (nodes P c) of
                   Undefined \<Rightarrow> Inl ''TypeError: Cannot read properties of undefined''
                 | Obj d \<Rightarrow> Inl ''TypeError: current.tagName.toLowerCase is not a function''
                 | Str t \<Rightarrow>
                     buildPath P (parentElement P c) (depth + 1)
                       ((toLowerCase t @ nthChildSuffix P c) # path))
           else Inr path))"
  by pat_completeness auto

termination buildPath
  by (relation "measure (\<lambda>(P, current, depth, path). 3 - depth)") auto

definition classList :: "string \<Rightarrow> string list" where
  "classList cn =
     take 3 (filter (\<lambda>cls. cls \<noteq> [] \<and> \<not> js_includes cls ''css-scanner'') (js_split CHR '' '' cn))"

text \<open>
  The class branch of \<open>generateOptimizedSelector\<close>: the selector it returns, nothing
  when the method goes on to the path, or the exception of \<open>className.split\<close> for a
  class name that is an object.
\<close>

definition classSelector :: "page \<Rightarrow> jsValue \<Rightarrow> string + string option" where
  "classSelector P cn =
     (case cn of
        Undefined \<Rightarrow> Inr None
      | Obj d \<Rightarrow> Inl ''TypeError: element.className.split is not a function''
      | Str s \<Rightarrow>
          (if s \<noteq> [] \<and> length (classList s) > 0
              \<and> (case querySelectorAll P (''.'' @ js_join ''.'' (classList s)) of
                    Inl err \<Rightarrow> False
                  | Inr matches \<Rightarrow> matches \<le> 5)
           then Inr (Some (''.'' @ js_join ''.'' (classList s)))
           else Inr None))"

text \<open>The last expression of the callback:
  \<open>path.join(' > ') || element.tagName?.toLowerCase() || 'unknown'\<close>.\<close>

definition pathOrTag :: "page \<Rightarrow> ref \<Rightarrow> string list \<Rightarrow> string + string" where
  "pathOrTag P e path =
     (if js_join '' > '' path \<noteq> [] then Inr (js_join '' > '' path)
      else (case tagName (nodes P e) of
              Undefined \<Rightarrow> Inr ''unknown''
            | Obj d \<Rightarrow> Inl ''TypeError: element.tagName?.toLowerCase is not a function''
            | Str t \<Rightarrow> Inr (if toLowerCase t \<noteq> [] then toLowerCase t else ''unknown'')))"

text \<open>The callback of \<open>generateOptimizedSelector\<close>: \<open>Inl\<close> is the exception that the
  wrapper turns into \<open>'unknown'\<close>.\<close>

definition selectorBody :: "page \<Rightarrow> ref \<Rightarrow> string + string" where
  "selectorBody P e =
     (if truthy (ident (nodes P e)) then Inr (''#'' @ toStr (ident (nodes P e)))
      else (case classSelector P (className (nodes P e)) of
              Inl err \<Rightarrow> Inl err
            | Inr (Some sel) \<Rightarrow> Inr sel
            | Inr None \<Rightarrow>
                (case buildPath P (Some e) 0 [] of
                   Inl err \<Rightarrow> Inl err
                 | Inr path \<Rightarrow> pathOrTag P e path)))"

definition generateOptimizedSelector :: "page \<Rightarrow> ref option \<Rightarrow> string" where
  "generateOptimizedSelector P element =
     (case element of
        None \<Rightarrow> ''body''
      | Some e \<Rightarrow>
          (if Some e = body P then ''body''
           else (case selectorBody P e of Inl err \<Rightarrow> ''unknown'' | Inr s \<Rightarrow> s)))"

text \<open>
  \<open>getSelector(element)\<close>. A weak map takes objects as keys: \<open>has(null)\<close> is false and
  \<open>set(null, ...)\<close> throws a TypeError, which the wrapper turns into \<open>'unknown'\<close>.
\<close>

definition getSelector :: "page \<Rightarrow> ref option \<Rightarrow> styleCache \<Rightarrow> string \<times> styleCache" where
  "getSelector P element sc =
     (case element of
        None \<Rightarrow> (''unknown'', sc)
      | Some e \<Rightarrow>
          (case selectorCache sc e of
             Some s \<Rightarrow> (s, sc)
           | None \<Rightarrow>
               (generateOptimizedSelector P (Some e),
                sc\<lparr>selectorCache := (selectorCache sc)(e \<mapsto> generateOptimizedSelector P (Some e))\<rparr>)))"

section \<open>CSSAnalyzer: inline styles and the inspection result\<close>

text \<open>One declaration of \<open>style.cssText\<close>: \<open>inline[prop] = value\<close> when the colon is
  not first and both sides are non-empty after trimming.\<close>

definition addDeclaration :: "styles \<Rightarrow> string \<Rightarrow> styles" where
  "addDeclaration inl declaration =
     (let colonIndex = js_indexOf declaration CHR '':'' in
      if colonIndex > 0
      then (let prop = js_trim (take (nat colonIndex) declaration);
                val = js_trim (drop (nat colonIndex + 1) declaration)
            in if prop \<noteq> [] \<and> val \<noteq> [] then obj_set inl prop val else inl)
      else inl)"

definition extractInlineStyles :: "page \<Rightarrow> ref \<Rightarrow> styles" where
  "extractInlineStyles P e =
     (case style (nodes P e) of
        None \<Rightarrow> []
      | Some st \<Rightarrow>
          (if length (items st) = 0 then []
           else if cssText st \<noteq> []
             then foldl addDeclaration []
                    (filter (\<lambda>decl. js_trim decl \<noteq> []) (js_split CHR '';'' (cssText st)))
           else foldl (\<lambda>inl (prop, val). if val \<noteq> [] then obj_set inl prop val else inl)
                  [] (items st)))"

record elementInfo =
  elTagName :: string
  elClassName :: jsValue
  elId :: jsValue
  elSelector :: string

record cssInfo =
  element :: elementInfo
  computed :: styles
  inline :: styles
  categorized :: "(string \<times> styles) list"

text \<open>
  The failure branch of \<open>extractCSSInfo\<close>, which no wrapper encloses:
  \<open>element?.tagName?.toLowerCase() || 'unknown'\<close> throws for a tag name that is an
  object; otherwise the branch returns the basic information.
\<close>

definition basicInfo :: "page \<Rightarrow> ref option \<Rightarrow> string + cssInfo" where
  "basicInfo P el =
     (case el of
        None \<Rightarrow>
          Inr \<lparr>element = \<lparr>elTagName = ''unknown'', elClassName = Str [], elId = Str [],
                            elSelector = ''unknown''\<rparr>,
               computed = [], inline = [], categorized = []\<rparr>
      | Some e \<Rightarrow>
          (case tagName (nodes P e) of
             Obj d \<Rightarrow> Inl ''TypeError: element?.tagName?.toLowerCase is not a function''
           | Undefined \<Rightarrow>
               Inr \<lparr>element = \<lparr>elTagName = ''unknown'',
                                 elClassName = orEmpty (className (nodes P e)),
                                 elId = orEmpty (ident (nodes P e)),
                                 elSelector = ''unknown''\<rparr>,
                    computed = [], inline = [], categorized = []\<rparr>
           | Str t \<Rightarrow>
               Inr \<lparr>element = \<lparr>elTagName = (if toLowerCase t \<noteq> [] then toLowerCase t
                                              else ''unknown''),
                                 elClassName = orEmpty (className (nodes P e)),
                                 elId = orEmpty (ident (nodes P e)),
                                 elSelector = ''unknown''\<rparr>,
                    computed = [], inline = [], categorized = []\<rparr>))"

text \<open>
  \<open>extractCSSInfo(element)\<close>: the result, or the exception that leaves the method
  (\<open>Inl\<close>). The callback throws for \<open>null\<close> before anything else, and for a node
  whose tag name is no string after the cache has been used; the three reads before
  it have wrappers of their own and give their fallback values instead of throwing.
\<close>

definition extractCSSInfo ::
  "page \<Rightarrow> int \<Rightarrow> ref option \<Rightarrow> styleCache \<Rightarrow> (string + cssInfo) \<times> styleCache" where
  "extractCSSInfo P now el sc =
     (case el of
        None \<Rightarrow> (basicInfo P el, sc)
      | Some e \<Rightarrow>
          (let (computedStyle, sc1) = getComputedStyle P now el sc;
               (selector, sc2) = getSelector P el sc1;
               inlineStyle = extractInlineStyles P e
           in case tagName (nodes P e) of
                Undefined \<Rightarrow> (basicInfo P el, sc2)
              | Obj d \<Rightarrow> (basicInfo P el, sc2)
              | Str t \<Rightarrow>
                  (Inr \<lparr>element =
                          \<lparr>elTagName = toLowerCase t,
                           elClassName = orEmpty (className (nodes P e)),
                           elId = orEmpty (ident (nodes P e)),
                           elSelector = selector\<rparr>,
                        computed = computedStyle,
                        inline = inlineStyle,
                        categorized = categorizeStyles computedStyle\<rparr>, sc2)))"

section \<open>ErrorHandler and ClipboardManager\<close>

text \<open>
  The clipboard of the platform: whether \<open>navigator.clipboard.writeText\<close> exists and
  resolves, and what \<open>document.execCommand('copy')\<close> returns for a selected text. The
  state holds the clipboard's content (\<open>None\<close> while nothing has written it), the
  texts handed to either operation, in order, and the error handler's counts per key.
\<close>

record clipboardPlatform =
  hasClipboardAPI :: bool
  writeTextResolves :: "string \<Rightarrow> bool"
  execCommandCopy :: "string \<Rightarrow> bool"

record clipWorld =
  clipboard :: "string option"
  copyAttempts :: "string list"
  errorCounts :: "string \<Rightarrow> nat"

definition writeText :: "clipboardPlatform \<Rightarrow> string \<Rightarrow> clipWorld \<Rightarrow> bool \<times> clipWorld" where
  "writeText C t w =
     (if writeTextResolves C t
      then (True, w\<lparr>clipboard := Some t, copyAttempts := copyAttempts w @ [t]\<rparr>)
      else (False, w\<lparr>copyAttempts := copyAttempts w @ [t]\<rparr>))"

definition execCopy :: "clipboardPlatform \<Rightarrow> string \<Rightarrow> clipWorld \<Rightarrow> bool \<times> clipWorld" where
  "execCopy C t w =
     (if execCommandCopy C t
      then (True, w\<lparr>clipboard := Some t, copyAttempts := copyAttempts w @ [t]\<rparr>)
      else (False, w\<lparr>copyAttempts := copyAttempts w @ [t]\<rparr>))"

definition maxRetries :: nat where
  "maxRetries = 3"

text \<open>\<open>recoverClipboardAccess(context)\<close>: a text area holding
  \<open>context.text || 'No content to copy.'\<close> is selected and copied.\<close>

definition recoverClipboardAccess :: "clipboardPlatform \<Rightarrow> string option \<Rightarrow> clipWorld \<Rightarrow> clipWorld" where
  "recoverClipboardAccess C contextText w =
     snd (execCopy C
            (case contextText of
               None \<Rightarrow> ''No content to copy.''
             | Some t \<Rightarrow> (if t \<noteq> [] then t else ''No content to copy.''))
            w)"

text \<open>\<open>attemptRecovery\<close>: of its cases only \<open>CLIPBOARD_WRITE_FAILED\<close> touches the
  clipboard; the others act on nothing this state holds.\<close>

definition attemptRecovery :: "clipboardPlatform \<Rightarrow> string \<Rightarrow> string option \<Rightarrow> clipWorld \<Rightarrow> clipWorld" where
  "attemptRecovery C errorType contextText w =
     (if errorType = ''CLIPBOARD_WRITE_FAILED'' then recoverClipboardAccess C contextText w
      else w)"

text \<open>\<open>handleError(error, errorType, context)\<close>, with the message of the error and the
  \<open>text\<close> field of the context.\<close>

definition handleError :: "clipboardPlatform \<Rightarrow> string \<Rightarrow> string \<Rightarrow> string option \<Rightarrow> clipWorld \<Rightarrow> clipWorld" where
  "handleError C message errorType contextText w =
     (let errorKey = errorType @ ''_'' @ message;
          currentCount = errorCounts w errorKey;
          w1 = w\<lparr>errorCounts := (errorCounts w)(errorKey := currentCount + 1)\<rparr>
      in if currentCount \<ge> maxRetries then w1
         else attemptRecovery C errorType contextText w1)"

definition generateAllCSSText :: "(string \<Rightarrow> string \<Rightarrow> int) \<Rightarrow> cssInfo \<Rightarrow> string \<Rightarrow> string" where
  "generateAllCSSText localeCompare elementData selector =
     (if length (computed elementData) = 0
      then generateCSSText localeCompare
             (foldl (\<lambda>allStyles (category, categoryStyles). obj_assign allStyles categoryStyles)
                [] (categorized elementData))
             selector
      else generateCSSText localeCompare (computed elementData) selector)"

text \<open>\<open>generateInlineCSSText\<close>: its wrapper reports the error and the method throws it
  again.\<close>

definition generateInlineCSSText ::
  "clipboardPlatform \<Rightarrow> (string \<Rightarrow> string \<Rightarrow> int) \<Rightarrow> cssInfo \<Rightarrow> string \<Rightarrow> clipWorld \<Rightarrow> (string + string) \<times> clipWorld" where
  "generateInlineCSSText C localeCompare elementData selector w =
     (if length (inline elementData) = 0
      then (Inl ''No inline styles found.'',
            handleError C ''No inline styles found.'' ''INLINE_CSS_GENERATION_ERROR'' None w)
      else (Inr (generateCSSText localeCompare (inline elementData) selector), w))"

definition isValidCopyText :: "string \<Rightarrow> string \<Rightarrow> bool" where
  "isValidCopyText textToCopy selector =
     (textToCopy \<noteq> [] \<and> js_trim textToCopy \<noteq> [] \<and> textToCopy \<noteq> ''{}'' \<and>
      textToCopy \<noteq> selector @ '' {'' @ newline @ newline @ ''}'')"

definition performCopy :: "clipboardPlatform \<Rightarrow> string \<Rightarrow> clipWorld \<Rightarrow> bool \<times> clipWorld" where
  "performCopy C t w =
     (if hasClipboardAPI C
      then (case writeText C t w of
              (True, w1) \<Rightarrow> (True, w1)
            | (False, w1) \<Rightarrow> execCopy C t w1)
      else execCopy C t w)"

definition copyTypeNames :: "string \<Rightarrow> string" where
  "copyTypeNames ty =
     (if ty = ''selector'' then ''Selector''
      else if ty = ''all'' then ''All CSS''
      else if ty = ''computed'' then ''Computed styles''
      else if ty = ''inline'' then ''Inline styles''
      else ''Content'')"

text \<open>The \<open>switch\<close> of \<open>copyToClipboard\<close>: the text to copy, or the error thrown.\<close>

definition textToCopyOf ::
  "clipboardPlatform \<Rightarrow> (string \<Rightarrow> string \<Rightarrow> int) \<Rightarrow> cssInfo \<Rightarrow> string \<Rightarrow> clipWorld \<Rightarrow> (string + string) \<times> clipWorld" where
  "textToCopyOf C localeCompare elementData ty w =
     (let selector = elSelector (element elementData) in
      if ty = ''selector'' then (Inr selector, w)
      else if ty = ''all'' \<or> ty = ''computed''
        then (Inr (generateAllCSSText localeCompare elementData selector), w)
      else if ty = ''inline''
        then generateInlineCSSText C localeCompare elementData selector w
      else (Inl ''Unknown copy type.'', w))"

text \<open>The callback that \<open>copyToClipboard\<close> hands to \<open>executeAsync\<close>.\<close>

definition copyCallback ::
  "clipboardPlatform \<Rightarrow> (string \<Rightarrow> string \<Rightarrow> int) \<Rightarrow> cssInfo option \<Rightarrow> string \<Rightarrow> clipWorld \<Rightarrow> (string + string) \<times> clipWorld" where
  "copyCallback C localeCompare elementData ty w =
     (case elementData of
        None \<Rightarrow> (Inl ''No data available.'', w)
      | Some d \<Rightarrow>
          (case textToCopyOf C localeCompare d ty w of
             (Inl err, w1) \<Rightarrow> (Inl err, w1)
           | (Inr textToCopy, w1) \<Rightarrow>
               (if \<not> isValidCopyText textToCopy (elSelector (element d))
                then (Inl ''No CSS content to copy.'', w1)
                else (case performCopy C textToCopy w1 of
                        (False, w2) \<Rightarrow> (Inl ''Copy failed.'', w2)
                      | (True, w2) \<Rightarrow> (Inr (copyTypeNames ty), w2)))))"

text \<open>
  \<open>copyToClipboard(elementData, type)\<close>: \<open>executeAsync\<close> awaits the error handler with
  the type \<open>CLIPBOARD_WRITE_FAILED\<close> and the context \<open>{ elementData, type }\<close>, which has
  no \<open>text\<close>, before the method rejects with the message.
\<close>

definition copyToClipboard ::
  "clipboardPlatform \<Rightarrow> (string \<Rightarrow> string \<Rightarrow> int) \<Rightarrow> cssInfo option \<Rightarrow> string \<Rightarrow> clipWorld \<Rightarrow> (string + string) \<times> clipWorld" where
  "copyToClipboard C localeCompare elementData ty w =
     (case copyCallback C localeCompare elementData ty w of
        (Inl err, w1) \<Rightarrow> (Inl err, handleError C err ''CLIPBOARD_WRITE_FAILED'' None w1)
      | (Inr name, w1) \<Rightarrow> (Inr name, w1))"

section \<open>PopupManager and the pointer-move handlers\<close>

text \<open>
  Lengths in pixels are real numbers. The popup has the size that
  \<open>getBoundingClientRect\<close> measures and the position of its \<open>style.left\<close> and
  \<open>style.top\<close> (\<open>None\<close> while unset), kept as numbers of pixels.
\<close>

record popupElement =
  rectWidth :: real
  rectHeight :: real
  styleLeft :: "real option"
  styleTop :: "real option"

record popupManager =
  popup :: "popupElement option"
  isPinned :: bool
  pinnedPosition :: "(real option \<times> real option) option"

record viewport =
  documentReady :: bool
  innerWidth :: real
  innerHeight :: real

definition popupWidthOf :: "popupElement \<Rightarrow> real" where
  "popupWidthOf p = (if rectWidth p \<noteq> 0 then rectWidth p else 380)"

definition popupHeightOf :: "viewport \<Rightarrow> popupElement \<Rightarrow> real" where
  "popupHeightOf V p =
     (if rectHeight p \<noteq> 0 then rectHeight p else min 500 (innerHeight V * (7 / 10)))"

definition positions :: "real \<times> real \<Rightarrow> real \<Rightarrow> real \<Rightarrow> (real \<times> real) list" where
  "positions mousePosition popupWidth popupHeight =
     [(fst mousePosition + 20, snd mousePosition + 20),
      (fst mousePosition - popupWidth - 20, snd mousePosition + 20),
      (fst mousePosition + 20, snd mousePosition - popupHeight - 20),
      (fst mousePosition - popupWidth - 20, snd mousePosition - popupHeight - 20)]"

definition fits :: "viewport \<Rightarrow> real \<Rightarrow> real \<Rightarrow> real \<times> real \<Rightarrow> bool" where
  "fits V popupWidth popupHeight pos =
     (fst pos \<ge> 10 \<and> snd pos \<ge> 10 \<and>
      fst pos + popupWidth \<le> innerWidth V - 10 \<and>
      snd pos + popupHeight \<le> innerHeight V - 10)"

definition bestPosition :: "viewport \<Rightarrow> real \<times> real \<Rightarrow> real \<Rightarrow> real \<Rightarrow> real \<times> real" where
  "bestPosition V mousePosition popupWidth popupHeight =
     (let pos = (case List.find (fits V popupWidth popupHeight)
                        (positions mousePosition popupWidth popupHeight) of
                   Some found \<Rightarrow> found
                 | None \<Rightarrow> (fst mousePosition + 20, snd mousePosition + 20))
      in (max 10 (min (fst pos) (innerWidth V - popupWidth - 10)),
          max 10 (min (snd pos) (innerHeight V - popupHeight - 10))))"

text \<open>\<open>updatePopupPosition(mousePosition)\<close>: \<open>executeDOMOperation\<close> runs the callback
  only when the document has a body.\<close>

definition updatePopupPosition :: "viewport \<Rightarrow> real \<times> real \<Rightarrow> popupManager \<Rightarrow> popupManager" where
  "updatePopupPosition V mousePosition pm =
     (if \<not> documentReady V then pm
      else (case popup pm of
              None \<Rightarrow> pm
            | Some p \<Rightarrow>
                (if isPinned pm then pm
                 else (let best = bestPosition V mousePosition (popupWidthOf p) (popupHeightOf V p)
                       in pm\<lparr>popup := Some (p\<lparr>styleLeft := Some (fst best),
                                                 styleTop := Some (snd best)\<rparr>)\<rparr>))))"

definition pinPopup :: "popupManager \<Rightarrow> popupManager" where
  "pinPopup pm =
     (case popup pm of
        None \<Rightarrow> pm\<lparr>isPinned := True\<rparr>
      | Some p \<Rightarrow> pm\<lparr>isPinned := True, pinnedPosition := Some (styleLeft p, styleTop p)\<rparr>)"

definition unpinPopup :: "popupManager \<Rightarrow> popupManager" where
  "unpinPopup pm = pm\<lparr>isPinned := False, pinnedPosition := None\<rparr>"

text \<open>A pointer-move event: the cursor and whether its target lies inside the popup
  (\<open>isPopupElement(event.target)\<close>).\<close>

record mouseEvent =
  clientX :: real
  clientY :: real
  targetInPopup :: bool

record scanner =
  isScanning :: bool
  manager :: popupManager
  mousePosition :: "real \<times> real"

text \<open>\<open>CSSScanner.handleMouseMove(event, mousePosition)\<close>.\<close>

definition scannerHandleMouseMove :: "viewport \<Rightarrow> mouseEvent \<Rightarrow> real \<times> real \<Rightarrow> scanner \<Rightarrow> scanner" where
  "scannerHandleMouseMove V event pos s =
     (if \<not> isScanning s then s
      else if popup (manager s) \<noteq> None \<and> \<not> isPinned (manager s) \<and> \<not> targetInPopup event
        then s\<lparr>manager := updatePopupPosition V pos (manager s)\<rparr>
      else s)"

text \<open>\<open>EventHandler.handleMouseMove(event)\<close>, whose callback is the scanner's.\<close>

definition handleMouseMove :: "viewport \<Rightarrow> mouseEvent \<Rightarrow> scanner \<Rightarrow> scanner" where
  "handleMouseMove V event s =
     scannerHandleMouseMove V event (clientX event, clientY event)
       (s\<lparr>mousePosition := (clientX event, clientY event)\<rparr>)"

text \<open>A sequence of pointer-move events, each with the viewport of its moment.\<close>

definition handleMouseMoves :: "(viewport \<times> mouseEvent) list \<Rightarrow> scanner \<Rightarrow> scanner" where
  "handleMouseMoves events s = foldl (\<lambda>s' (V, event). handleMouseMove V event s') s events"

definition renderedPosition :: "scanner \<Rightarrow> (real option \<times> real option) option" where
  "renderedPosition s = map_option (\<lambda>p. (styleLeft p, styleTop p)) (popup (manager s))"

section \<open>The selector as the specification words it\<close>










section \<open>A page, a clipboard and a popup to evaluate on\<close>

text \<open>
  The document (0) holds \<open>html\<close> (1), which holds \<open>body\<close> (2); the body holds
  \<open>div#a\<close> (3), which has an inline style, and a \<open>div\<close> of class \<open>card\<close> (4) that is
  highlighted and holds a \<open>span\<close> (5) and a \<open>p\<close> of the classes \<open>note\<close> and \<open>big\<close>
  (6); the body also holds an \<open>svg\<close> element (7) with a \<open>g\<close> (8), whose class names
  are objects, and a \<open>form\<close> (9) with a control named \<open>tagName\<close>. The class \<open>card\<close>
  matches seven elements, any other selector none.
\<close>

definition noNode :: node where
  "noNode = \<lparr>tagName = Undefined, ident = Str [], className = Str [], parentNode = None,
             children = [], style = None\<rparr>"

definition exampleNodes :: "ref \<Rightarrow> node" where
  "exampleNodes r =
     (if r = 0 then noNode\<lparr>ident := Undefined, className := Undefined, children := [1]\<rparr>
      else if r = 1 then noNode\<lparr>tagName := Str ''HTML'', parentNode := Some 0, children := [2]\<rparr>
      else if r = 2 then noNode\<lparr>tagName := Str ''BODY'', parentNode := Some 1,
             children := [3, 4, 7, 9]\<rparr>
      else if r = 3 then noNode\<lparr>tagName := Str ''DIV'', ident := Str ''a'', parentNode := Some 2,
             style := Some \<lparr>cssText = ''color: red; margin: 0px;'',
                            items = [(''color'', ''red''), (''margin'', ''0px'')]\<rparr>\<rparr>
      else if r = 4 then noNode\<lparr>tagName := Str ''DIV'',
             className := Str ''card css-scanner-highlight'',
             parentNode := Some 2, children := [5, 6]\<rparr>
      else if r = 5 then noNode\<lparr>tagName := Str ''SPAN'', parentNode := Some 4\<rparr>
      else if r = 6 then noNode\<lparr>tagName := Str ''P'', className := Str ''note  big'',
             parentNode := Some 4\<rparr>
      else if r = 7 then noNode\<lparr>tagName := Str ''svg'',
             className := Obj ''[object SVGAnimatedString]'',
             parentNode := Some 2, children := [8]\<rparr>
      else if r = 8 then noNode\<lparr>tagName := Str ''g'',
             className := Obj ''[object SVGAnimatedString]'', parentNode := Some 7\<rparr>
      else if r = 9 then noNode\<lparr>tagName := Obj ''[object HTMLInputElement]'',
             parentNode := Some 2\<rparr>
      else noNode)"

definition exampleComputed :: "string \<Rightarrow> string + string" where
  "exampleComputed prop =
     (if prop = ''display'' then Inr ''flex''
      else if prop = ''margin'' then Inr ''0px''
      else if prop = ''color'' then Inr ''rgb(255, 0, 0)''
      else Inr [])"

definition examplePage :: page where
  "examplePage =
     \<lparr>nodes = exampleNodes, body = Some 2,
      windowGetComputedStyle = (\<lambda>e. Inr exampleComputed),
      querySelectorAll = (\<lambda>sel. if sel = ''.card'' then Inr 7 else Inr 0)\<rparr>"

text \<open>The same page at a moment when reading computed styles throws.\<close>

definition failingPage :: page where
  "failingPage = examplePage\<lparr>windowGetComputedStyle := (\<lambda>e. Inl ''TypeError'')\<rparr>"

definition emptyCache :: styleCache where
  "emptyCache = \<lparr>cache = (\<lambda>e. None), selectorCache = (\<lambda>e. None), lastClearTime = 0,
                 styleReads = 0\<rparr>"

definition exampleClipboard :: clipboardPlatform where
  "exampleClipboard =
     \<lparr>hasClipboardAPI = True, writeTextResolves = (\<lambda>t. True), execCommandCopy = (\<lambda>t. True)\<rparr>"

definition freshWorld :: clipWorld where
  "freshWorld = \<lparr>clipboard = None, copyAttempts = [], errorCounts = (\<lambda>k. 0)\<rparr>"

definition exampleInfo :: cssInfo where
  "exampleInfo =
     \<lparr>element = \<lparr>elTagName = ''div'', elClassName = Str [], elId = Str ''a'',
                   elSelector = ''#a''\<rparr>,
      computed = [(''display'', ''flex''), (''margin'', ''0px''), (''color'', ''rgb(255, 0, 0)'')],
      inline = [],
      categorized = [(''layout'', [(''display'', ''flex'')]),
                     (''typography'', [(''color'', ''rgb(255, 0, 0)'')])]\<rparr>"

definition exampleViewport :: viewport where
  "exampleViewport = \<lparr>documentReady = True, innerWidth = 300, innerHeight = 600\<rparr>"

definition examplePopup :: popupElement where
  "examplePopup = \<lparr>rectWidth = 380, rectHeight = 200, styleLeft = Some 40, styleTop = Some 50\<rparr>"

definition exampleScanner :: scanner where
  "exampleScanner =
     \<lparr>isScanning = True,
      manager = \<lparr>popup = Some examplePopup, isPinned = False, pinnedPosition = None\<rparr>,
      mousePosition = (0, 0)\<rparr>"

text \<open>A viewport in which a popup of 600 by 400 pixels fits, but next to no cursor in
  the middle of it; and ten pointer moves.\<close>

definition wideViewport :: viewport where
  "wideViewport = \<lparr>documentReady = True, innerWidth = 1000, innerHeight = 600\<rparr>"

definition largePopup :: popupElement where
  "largePopup = \<lparr>rectWidth = 600, rectHeight = 400, styleLeft = None, styleTop = None\<rparr>"

definition exampleMove :: "real \<Rightarrow> real \<Rightarrow> viewport \<times> mouseEvent" where
  "exampleMove x y = (exampleViewport, \<lparr>clientX = x, clientY = y, targetInPopup = False\<rparr>)"

definition tenMoves :: "(viewport \<times> mouseEvent) list" where
  "tenMoves = map (\<lambda>k. exampleMove (10 * real k) (7 * real k)) [1, 2, 3, 4, 5, 6, 7, 8, 9, 10]"

section \<open>What the copied rule is made of\<close>


definition rulePrefix :: "string \<Rightarrow> string" where
  "rulePrefix selector = (if selector \<noteq> [] then selector @ '' '' else [])"


section \<open>Facts about objects and sorting\<close>

text \<open>The recursive equations are unfolded where a proof asks for them.\<close>

declare toStringNat.simps [simp del]
declare buildPath.simps [simp del]
declare getComputedStyle.simps [simp del]


lemma set_obj_set: "set (obj_set kvs k v) \<subseteq> insert (k, v) (set kvs)"
  by (induction kvs k v rule: obj_set.induct) auto

lemma categoryData_fold_valid:
  "\<forall>pv \<in> set acc. isValidCSSValue (snd pv) \<Longrightarrow>
   \<forall>pv \<in> set (foldl (\<lambda>categoryData prop.
              case map_of cs prop of
                None \<Rightarrow> categoryData
              | Some v \<Rightarrow>
                  if v \<noteq> [] \<and> isValidCSSValue v then obj_set categoryData prop v
                  else categoryData) acc plist). isValidCSSValue (snd pv)"
proof (induction plist arbitrary: acc)
  case Nil
  then show ?case by simp
next
  case (Cons pr plist)
  show ?case
  proof (cases "map_of cs pr")
    case None
    with Cons show ?thesis by simp
  next
    case (Some v)
    show ?thesis
    proof (cases "v \<noteq> [] \<and> isValidCSSValue v")
      case True
      have "\<forall>pv \<in> set (obj_set acc pr v). isValidCSSValue (snd pv)"
        using set_obj_set [of acc pr v] Cons.prems True by auto
      from Cons.IH [OF this] Some True show ?thesis by simp
    next
      case False
      with Cons Some show ?thesis by auto
    qed
  qed
qed

lemma categoryDataOf_valid:
  "pv \<in> set (categoryDataOf cs props) \<Longrightarrow> isValidCSSValue (snd pv)"
  using categoryData_fold_valid [of "[]" cs props] by (simp add: categoryDataOf_def)

lemma categorize_fold_valid:
  "\<forall>cd \<in> set acc. \<forall>pv \<in> set (snd cd). isValidCSSValue (snd pv) \<Longrightarrow>
   \<forall>cd \<in> set (foldl (\<lambda>categorized (category, properties).
              if length (categoryDataOf cs properties) > 0
              then obj_set categorized category (categoryDataOf cs properties)
              else categorized) acc cats). \<forall>pv \<in> set (snd cd). isValidCSSValue (snd pv)"
proof (induction cats arbitrary: acc)
  case Nil
  then show ?case by simp
next
  case (Cons cat cats)
  obtain category properties where cat: "cat = (category, properties)" by (cases cat)
  show ?case
  proof (cases "length (categoryDataOf cs properties) > 0")
    case True
    have "\<forall>cd \<in> set (obj_set acc category (categoryDataOf cs properties)).
            \<forall>pv \<in> set (snd cd). isValidCSSValue (snd pv)"
    proof (intro ballI)
      fix cd pv
      assume cd: "cd \<in> set (obj_set acc category (categoryDataOf cs properties))"
        and pv: "pv \<in> set (snd cd)"
      from cd set_obj_set [of acc category "categoryDataOf cs properties"]
      have "cd = (category, categoryDataOf cs properties) \<or> cd \<in> set acc" by blast
      then show "isValidCSSValue (snd pv)"
      proof
        assume "cd = (category, categoryDataOf cs properties)"
        with pv show ?thesis by (simp add: categoryDataOf_valid)
      next
        assume "cd \<in> set acc"
        with pv Cons.prems show ?thesis by blast
      qed
    qed
    from Cons.IH [OF this] cat True show ?thesis by simp
  next
    case False
    with Cons cat show ?thesis by simp
  qed
qed

lemma categorizeStyles_valid:
  "(cat, cdata) \<in> set (categorizeStyles cs) \<Longrightarrow> (p, v) \<in> set cdata \<Longrightarrow> isValidCSSValue v"
  using categorize_fold_valid [of "[]" cs cssCategories]
  by (fastforce simp: categorizeStyles_def)

lemma trim_invalidValues: "v \<in> set invalidValues \<Longrightarrow> js_trim v = v"
  by (auto simp: invalidValues_def js_trim_def isWhitespace_def)

lemma isValid_not_invalid: "isValidCSSValue v \<Longrightarrow> v \<notin> set invalidValues \<and> js_trim v \<notin> set invalidValues"
  using trim_invalidValues [of v] by (auto simp: isValidCSSValue_def split: if_splits)

lemma set_js_insert: "set (js_insert lc x ys) = insert x (set ys)"
  by (induction ys) auto

lemma set_js_sort: "set (js_sort lc xs) = set xs"
  unfolding js_sort_def by (induction xs) (auto simp: set_js_insert)

lemma length_js_insert: "length (js_insert lc x ys) = Suc (length ys)"
  by (induction ys) auto

lemma length_js_sort: "length (js_sort lc xs) = length xs"
  unfolding js_sort_def by (induction xs) (auto simp: length_js_insert)

lemma cssDeclarations_kept:
  "pv \<in> set (cssDeclarations lc sty) \<longleftrightarrow> pv \<in> set sty \<and> keepDeclaration pv"
  by (simp add: cssDeclarations_def set_js_sort)

section \<open>Values that are filtered out\<close>

lemma generateCSSText_declarations:
  "generateCSSText lc sty selector =
     (if cssDeclarations lc sty = [] then []
      else rulePrefix selector @ ''{'' @ newline @
           js_join newline (map declarationLine (cssDeclarations lc sty)) @ newline @ ''}'')"
proof (cases sty)
  case Nil
  then show ?thesis
    by (simp add: generateCSSText_def cssDeclarations_def js_sort_def)
next
  case (Cons a list)
  then show ?thesis
    by (simp add: generateCSSText_def cssLines_def rulePrefix_def)
qed

lemma keepDeclaration_values:
  "keepDeclaration pv \<longleftrightarrow>
     snd pv \<notin> set [[], ''none'', ''auto'', ''normal'', ''initial'', ''0px'', ''rgba(0, 0, 0, 0)'']"
  by (auto simp: keepDeclaration_def)

text \<open>
  Claim C1, as the code has it. No property of a category of \<open>categorizeStyles\<close> has
  a value of the list \<open>invalidValues\<close> (auto, normal, none, initial, inherit, unset, 0px,
  0, rgba(0, 0, 0, 0), transparent), also after trimming, nor the empty value. The text
  of \<open>generateCSSText\<close> is empty when no declaration survives and is otherwise the
  block of the lines of the surviving declarations. These are exactly the declarations
  of the style mapping whose value is not empty and is none of the six values that the
  method's own filter names (none, auto, normal, initial, 0px, rgba(0, 0, 0, 0)), each
  as often as the mapping has it; so a declaration whose value is inherit, unset, 0 or
  transparent is kept and the text is not empty.
\<close>

theorem uninteresting_values_filtered:
  "(\<forall>cat cdata p v. (cat, cdata) \<in> set (categorizeStyles cs) \<and> (p, v) \<in> set cdata
       \<longrightarrow> v \<noteq> [] \<and> v \<notin> set invalidValues \<and> js_trim v \<notin> set invalidValues) \<and>
   generateCSSText localeCompare sty selector =
     (if cssDeclarations localeCompare sty = [] then []
      else rulePrefix selector @ ''{'' @ newline @
           js_join newline (map declarationLine (cssDeclarations localeCompare sty)) @
           newline @ ''}'') \<and>
   (\<forall>p v. (p, v) \<in> set (cssDeclarations localeCompare sty) \<longleftrightarrow>
       (p, v) \<in> set sty \<and>
       v \<notin> set [[], ''none'', ''auto'', ''normal'', ''initial'', ''0px'', ''rgba(0, 0, 0, 0)'']) \<and>
   length (cssDeclarations localeCompare sty) =
     length (filter (\<lambda>pv. snd pv \<notin> set [[], ''none'', ''auto'', ''normal'', ''initial'', ''0px'',
                                         ''rgba(0, 0, 0, 0)'']) sty) \<and>
   (\<forall>p v. (p, v) \<in> set sty \<and> v \<in> set [''inherit'', ''unset'', ''0'', ''transparent'']
       \<longrightarrow> (p, v) \<in> set (cssDeclarations localeCompare sty) \<and>
           generateCSSText localeCompare sty selector \<noteq> [])"
proof (intro conjI allI impI)
  fix cat cdata p v
  assume h: "(cat, cdata) \<in> set (categorizeStyles cs) \<and> (p, v) \<in> set cdata"
  then have valid: "isValidCSSValue v" using categorizeStyles_valid by blast
  then show "v \<noteq> []" by (auto simp: isValidCSSValue_def)
  from valid show "v \<notin> set invalidValues" using isValid_not_invalid by blast
  from valid show "js_trim v \<notin> set invalidValues" using isValid_not_invalid by blast
next
  show "generateCSSText localeCompare sty selector =
     (if cssDeclarations localeCompare sty = [] then []
      else rulePrefix selector @ ''{'' @ newline @
           js_join newline (map declarationLine (cssDeclarations localeCompare sty)) @
           newline @ ''}'')"
    by (rule generateCSSText_declarations)
next
  fix p v
  show "(p, v) \<in> set (cssDeclarations localeCompare sty) \<longleftrightarrow>
       (p, v) \<in> set sty \<and>
       v \<notin> set [[], ''none'', ''auto'', ''normal'', ''initial'', ''0px'', ''rgba(0, 0, 0, 0)'']"
    using keepDeclaration_values [of "(p, v)"] by (simp add: cssDeclarations_kept)
next
  have "filter keepDeclaration sty =
      filter (\<lambda>pv. snd pv \<notin> set [[], ''none'', ''auto'', ''normal'', ''initial'', ''0px'',
                                  ''rgba(0, 0, 0, 0)'']) sty"
    by (rule filter_cong) (simp_all add: keepDeclaration_values)
  then show "length (cssDeclarations localeCompare sty) =
     length (filter (\<lambda>pv. snd pv \<notin> set [[], ''none'', ''auto'', ''normal'', ''initial'', ''0px'',
                                         ''rgba(0, 0, 0, 0)'']) sty)"
    by (simp add: cssDeclarations_def length_js_sort)
next
  fix p v
  assume h: "(p, v) \<in> set sty \<and> v \<in> set [''inherit'', ''unset'', ''0'', ''transparent'']"
  then have "keepDeclaration (p, v)"
    by (auto simp: keepDeclaration_def)
  with h show kept: "(p, v) \<in> set (cssDeclarations localeCompare sty)"
    by (simp add: cssDeclarations_kept)
  then have "cssDeclarations localeCompare sty \<noteq> []"
    by auto
  then show "generateCSSText localeCompare sty selector \<noteq> []"
    by (simp add: generateCSSText_declarations)
qed

theorem uninteresting_values_filtered_witness:
  "(''layout'', [(''display'', ''flex'')])
     \<in> set (categorizeStyles [(''display'', ''flex''), (''margin'', ''0px'')]) \<and>
   ''flex'' \<notin> set invalidValues \<and>
   (''margin'', ''0px'')
     \<notin> set (cssDeclarations codeUnitCompare [(''margin'', ''0px''), (''color'', ''transparent'')]) \<and>
   (''color'', ''transparent'')
     \<in> set (cssDeclarations codeUnitCompare [(''margin'', ''0px''), (''color'', ''transparent'')]) \<and>
   length (cssDeclarations codeUnitCompare [(''margin'', ''0px''), (''color'', ''transparent'')]) = 1 \<and>
   generateCSSText codeUnitCompare [(''margin'', ''0px''), (''color'', ''transparent'')] ''div''
     \<noteq> []"
proof -
  let ?cs = "[(''display'', ''flex''), (''margin'', ''0px'')]"
  let ?sty = "[(''margin'', ''0px''), (''color'', ''transparent'')]"
  note inst = uninteresting_values_filtered [of ?cs codeUnitCompare ?sty "''div''"]
  have m1: "(''layout'', [(''display'', ''flex'')]) \<in> set (categorizeStyles ?cs)"
    by code_simp
  have m2: "(''display'', ''flex'') \<in> set [(''display'', ''flex'')]"
    by simp
  from inst
  have a: "\<forall>cat cdata p v. (cat, cdata) \<in> set (categorizeStyles ?cs) \<and> (p, v) \<in> set cdata
        \<longrightarrow> v \<noteq> [] \<and> v \<notin> set invalidValues \<and> js_trim v \<notin> set invalidValues"
    by (rule conjunct1)
  from a m1 m2 have flex: "''flex'' \<notin> set invalidValues"
    by blast
  from inst
  have b: "\<forall>p v. (p, v) \<in> set (cssDeclarations codeUnitCompare ?sty) \<longleftrightarrow>
        (p, v) \<in> set ?sty \<and>
        v \<notin> set [[], ''none'', ''auto'', ''normal'', ''initial'', ''0px'', ''rgba(0, 0, 0, 0)'']"
    by blast
  from b have dropped: "(''margin'', ''0px'') \<notin> set (cssDeclarations codeUnitCompare ?sty)"
    by simp
  from b have kept: "(''color'', ''transparent'') \<in> set (cssDeclarations codeUnitCompare ?sty)"
    by simp
  from inst
  have "length (cssDeclarations codeUnitCompare ?sty) =
      length (filter (\<lambda>pv. snd pv \<notin> set [[], ''none'', ''auto'', ''normal'', ''initial'', ''0px'',
                                          ''rgba(0, 0, 0, 0)'']) ?sty)"
    by blast
  then have len: "length (cssDeclarations codeUnitCompare ?sty) = 1"
    by simp
  from inst
  have "\<forall>p v. (p, v) \<in> set ?sty \<and> v \<in> set [''inherit'', ''unset'', ''0'', ''transparent'']
       \<longrightarrow> (p, v) \<in> set (cssDeclarations codeUnitCompare ?sty) \<and>
           generateCSSText codeUnitCompare ?sty ''div'' \<noteq> []"
    by blast
  then have "(''color'', ''transparent'') \<in> set ?sty \<and>
      ''transparent'' \<in> set [''inherit'', ''unset'', ''0'', ''transparent'']
      \<longrightarrow> generateCSSText codeUnitCompare ?sty ''div'' \<noteq> []"
    by blast
  then have nonempty: "generateCSSText codeUnitCompare ?sty ''div'' \<noteq> []"
    by simp
  from m1 flex dropped kept len nonempty show ?thesis
    by blast
qed

text \<open>
  The claim as the specification states it fails for the text: \<open>transparent\<close> is a value
  of the list, and \<open>generateCSSText\<close> keeps a declaration that has it.
\<close>

theorem generateCSSText_keeps_transparent:
  "generateCSSText codeUnitCompare [(''color'', ''transparent'')] ''div''
     = ''div {'' @ newline @ ''  color: transparent;'' @ newline @ ''}'' \<and>
   ''transparent'' \<in> set invalidValues"
  by (simp add: generateCSSText_def cssLines_def cssDeclarations_def js_sort_def
      keepDeclaration_def declarationLine_def invalidValues_def)









section \<open>The copied CSS rule\<close>




section \<open>The position of the popup\<close>

lemma bestPosition_none:
  assumes "List.find (fits V w h) (positions m w h) = None"
  shows "bestPosition V m w h =
           (max 10 (min (fst m + 20) (innerWidth V - w - 10)),
            max 10 (min (snd m + 20) (innerHeight V - h - 10)))"
  using assms by (simp add: bestPosition_def)

text \<open>
  Claim C5, as the code has it. When the popup is shown and not pinned and none of the
  four candidates fits, \<open>updatePopupPosition\<close> places the popup at the first candidate
  clamped: each coordinate is at least 10; it is at most the viewport's size minus the
  popup's size minus 10 when that bound is at least 10, and it is 10 otherwise.
\<close>

theorem clamped_fallback_position:
  assumes ready: "documentReady V"
    and shown: "popup pm = Some p"
    and unpinned: "\<not> isPinned pm"
    and nofit: "List.find (fits V (popupWidthOf p) (popupHeightOf V p))
                  (positions m (popupWidthOf p) (popupHeightOf V p)) = None"
  shows "\<exists>x y. popup (updatePopupPosition V m pm) = Some (p\<lparr>styleLeft := Some x, styleTop := Some y\<rparr>) \<and>
           x = max 10 (min (fst m + 20) (innerWidth V - popupWidthOf p - 10)) \<and>
           y = max 10 (min (snd m + 20) (innerHeight V - popupHeightOf V p - 10)) \<and>
           10 \<le> x \<and> 10 \<le> y \<and>
           (if 10 \<le> innerWidth V - popupWidthOf p - 10
            then x \<le> innerWidth V - popupWidthOf p - 10 else x = 10) \<and>
           (if 10 \<le> innerHeight V - popupHeightOf V p - 10
            then y \<le> innerHeight V - popupHeightOf V p - 10 else y = 10)"
proof -
  let ?x = "max 10 (min (fst m + 20) (innerWidth V - popupWidthOf p - 10))"
  let ?y = "max 10 (min (snd m + 20) (innerHeight V - popupHeightOf V p - 10))"
  from ready shown unpinned bestPosition_none [OF nofit]
  have "popup (updatePopupPosition V m pm) = Some (p\<lparr>styleLeft := Some ?x, styleTop := Some ?y\<rparr>)"
    by (simp add: updatePopupPosition_def Let_def)
  moreover have "10 \<le> ?x" and "10 \<le> ?y" by simp_all
  moreover have "if 10 \<le> innerWidth V - popupWidthOf p - 10
            then ?x \<le> innerWidth V - popupWidthOf p - 10 else ?x = 10"
    by (simp add: max_def min_def)
  moreover have "if 10 \<le> innerHeight V - popupHeightOf V p - 10
            then ?y \<le> innerHeight V - popupHeightOf V p - 10 else ?y = 10"
    by (simp add: max_def min_def)
  ultimately show ?thesis by blast
qed

theorem clamped_fallback_position_witness:
  "List.find (fits wideViewport (popupWidthOf largePopup) (popupHeightOf wideViewport largePopup))
     (positions (500, 300) (popupWidthOf largePopup) (popupHeightOf wideViewport largePopup))
     = None \<and>
   popup (updatePopupPosition wideViewport (500, 300)
            \<lparr>popup = Some largePopup, isPinned = False, pinnedPosition = None\<rparr>)
     = Some (largePopup\<lparr>styleLeft := Some 390, styleTop := Some 190\<rparr>) \<and>
   (390::real) \<le> innerWidth wideViewport - popupWidthOf largePopup - 10 \<and>
   (190::real) \<le> innerHeight wideViewport - popupHeightOf wideViewport largePopup - 10"
proof -
  let ?pm = "\<lparr>popup = Some largePopup, isPinned = False, pinnedPosition = None\<rparr>"
  have ready: "documentReady wideViewport"
    by (simp add: wideViewport_def)
  have shown: "popup ?pm = Some largePopup"
    by simp
  have unpinned: "\<not> isPinned ?pm"
    by simp
  have nofit: "List.find (fits wideViewport (popupWidthOf largePopup)
                            (popupHeightOf wideViewport largePopup))
      (positions (500, 300) (popupWidthOf largePopup) (popupHeightOf wideViewport largePopup))
      = None"
    by (simp add: fits_def positions_def wideViewport_def largePopup_def popupWidthOf_def
        popupHeightOf_def)
  have vals: "innerWidth wideViewport - popupWidthOf largePopup - 10 = 390"
    "innerHeight wideViewport - popupHeightOf wideViewport largePopup - 10 = 190"
    by (simp_all add: wideViewport_def largePopup_def popupWidthOf_def popupHeightOf_def)
  from clamped_fallback_position [OF ready shown unpinned nofit]
  obtain x y where
    "popup (updatePopupPosition wideViewport (500, 300) ?pm)
       = Some (largePopup\<lparr>styleLeft := Some x, styleTop := Some y\<rparr>)"
    and "x = max 10 (min (fst (500::real, 300::real) + 20)
                       (innerWidth wideViewport - popupWidthOf largePopup - 10))"
    and "y = max 10 (min (snd (500::real, 300::real) + 20)
                       (innerHeight wideViewport - popupHeightOf wideViewport largePopup - 10))"
    by blast
  with nofit vals show ?thesis by simp
qed

text \<open>
  The claim as the specification states it fails when the popup is wider than the
  viewport allows: no candidate fits, the final x is 10, and 10 is above the upper
  bound of the interval, which is 300 - 380 - 10.
\<close>

theorem clamp_above_upper_bound:
  "List.find (fits exampleViewport (popupWidthOf examplePopup)
                (popupHeightOf exampleViewport examplePopup))
     (positions (100, 100) (popupWidthOf examplePopup)
        (popupHeightOf exampleViewport examplePopup)) = None \<and>
   map_option styleLeft
     (popup (updatePopupPosition exampleViewport (100, 100) (manager exampleScanner)))
     = Some (Some 10) \<and>
   \<not> (10 \<le> innerWidth exampleViewport - popupWidthOf examplePopup - 10)"
  by (simp add: fits_def positions_def exampleViewport_def examplePopup_def popupWidthOf_def
      popupHeightOf_def updatePopupPosition_def exampleScanner_def bestPosition_def)

section \<open>Pinning\<close>

lemma updatePopupPosition_pinned: "isPinned pm \<Longrightarrow> updatePopupPosition V m pm = pm"
  by (simp add: updatePopupPosition_def split: option.splits)

lemma handleMouseMove_pinned:
  "isPinned (manager s) \<Longrightarrow> manager (handleMouseMove V event s) = manager s"
  by (simp add: handleMouseMove_def scannerHandleMouseMove_def)

lemma handleMouseMoves_pinned:
  "isPinned (manager s) \<Longrightarrow> manager (handleMouseMoves events s) = manager s"
proof (induction events arbitrary: s)
  case Nil
  then show ?case by (simp add: handleMouseMoves_def)
next
  case (Cons ve events)
  obtain V event where ve: "ve = (V, event)" by (cases ve)
  have step: "manager (handleMouseMove V event s) = manager s"
    using Cons.prems by (rule handleMouseMove_pinned)
  with Cons.prems have "isPinned (manager (handleMouseMove V event s))" by simp
  from Cons.IH [OF this] step ve show ?case by (simp add: handleMouseMoves_def)
qed

lemma renderedPosition_pinPopup:
  "renderedPosition (s\<lparr>manager := pinPopup (manager s)\<rparr>) = renderedPosition s"
  by (simp add: renderedPosition_def pinPopup_def split: option.splits)

text \<open>
  Claim C6. After \<open>pinPopup\<close> any sequence of pointer-move events leaves the popup's
  rendered position as it was and the popup pinned; so does any sequence from a pinned
  state, where \<open>updatePopupPosition\<close> itself changes nothing. After \<open>unpinPopup\<close>, a
  pointer-move handled while scanning, with the popup shown in the document and the
  target outside the popup, sets the position that the positioning computes from the
  cursor of the event.
\<close>

theorem pinned_popup_keeps_position:
  "renderedPosition (handleMouseMoves events (s\<lparr>manager := pinPopup (manager s)\<rparr>))
     = renderedPosition s \<and>
   isPinned (manager (handleMouseMoves events (s\<lparr>manager := pinPopup (manager s)\<rparr>))) \<and>
   (isPinned (manager s) \<longrightarrow>
      renderedPosition (handleMouseMoves events s) = renderedPosition s \<and>
      updatePopupPosition V pos (manager s) = manager s) \<and>
   (isScanning s \<and> documentReady V \<and> popup (manager s) = Some p \<and> \<not> targetInPopup event \<longrightarrow>
      renderedPosition (handleMouseMove V event (s\<lparr>manager := unpinPopup (manager s)\<rparr>))
        = Some (Some (fst (bestPosition V (clientX event, clientY event)
                             (popupWidthOf p) (popupHeightOf V p))),
                Some (snd (bestPosition V (clientX event, clientY event)
                             (popupWidthOf p) (popupHeightOf V p)))))"
proof (intro conjI impI)
  let ?s = "s\<lparr>manager := pinPopup (manager s)\<rparr>"
  have pinned: "isPinned (manager ?s)"
    by (simp add: pinPopup_def split: option.splits)
  from handleMouseMoves_pinned [OF pinned]
  have same: "manager (handleMouseMoves events ?s) = manager ?s" .
  then have "renderedPosition (handleMouseMoves events ?s) = renderedPosition ?s"
    by (simp add: renderedPosition_def)
  then show "renderedPosition (handleMouseMoves events ?s) = renderedPosition s"
    by (simp add: renderedPosition_pinPopup)
  from same pinned show "isPinned (manager (handleMouseMoves events ?s))" by simp
next
  assume "isPinned (manager s)"
  from handleMouseMoves_pinned [OF this]
  show "renderedPosition (handleMouseMoves events s) = renderedPosition s"
    by (simp add: renderedPosition_def)
next
  assume "isPinned (manager s)"
  then show "updatePopupPosition V pos (manager s) = manager s"
    by (rule updatePopupPosition_pinned)
next
  assume "isScanning s \<and> documentReady V \<and> popup (manager s) = Some p \<and> \<not> targetInPopup event"
  then show "renderedPosition (handleMouseMove V event (s\<lparr>manager := unpinPopup (manager s)\<rparr>))
        = Some (Some (fst (bestPosition V (clientX event, clientY event)
                             (popupWidthOf p) (popupHeightOf V p))),
                Some (snd (bestPosition V (clientX event, clientY event)
                             (popupWidthOf p) (popupHeightOf V p))))"
    by (simp add: handleMouseMove_def scannerHandleMouseMove_def unpinPopup_def
        updatePopupPosition_def renderedPosition_def Let_def)
qed

theorem pinned_popup_keeps_position_witness:
  "length tenMoves = 10 \<and>
   renderedPosition (handleMouseMoves tenMoves
                       (exampleScanner\<lparr>manager := pinPopup (manager exampleScanner)\<rparr>))
     = Some (Some 40, Some 50) \<and>
   renderedPosition (handleMouseMove exampleViewport
                       \<lparr>clientX = 100, clientY = 100, targetInPopup = False\<rparr>
                       (exampleScanner\<lparr>manager := unpinPopup (manager exampleScanner)\<rparr>))
     = Some (Some 10, Some 120)"
proof -
  let ?ev = "\<lparr>clientX = 100, clientY = 100, targetInPopup = False\<rparr>"
  have pre: "isScanning exampleScanner \<and> documentReady exampleViewport \<and>
      popup (manager exampleScanner) = Some examplePopup \<and> \<not> targetInPopup ?ev"
    by (simp add: exampleScanner_def exampleViewport_def)
  have before: "renderedPosition exampleScanner = Some (Some 40, Some 50)"
    by (simp add: renderedPosition_def exampleScanner_def examplePopup_def)
  have best: "bestPosition exampleViewport (clientX ?ev, clientY ?ev) (popupWidthOf examplePopup)
      (popupHeightOf exampleViewport examplePopup) = (10, 120)"
    by (simp add: bestPosition_def positions_def fits_def exampleViewport_def examplePopup_def
        popupWidthOf_def popupHeightOf_def)
  have len: "length tenMoves = 10"
    by (simp add: tenMoves_def)
  from pinned_popup_keeps_position
         [where events = tenMoves and s = exampleScanner and V = exampleViewport
            and p = examplePopup and event = ?ev]
    pre before best len
  show ?thesis by simp
qed

section \<open>The selector\<close>














section \<open>The style cache\<close>

lemma getComputedStyle_hit:
  assumes "cache sc e = Some (st, ts)" and "now - ts \<le> maxCacheAge"
  shows "getComputedStyle P now (Some e) sc = (st, sc)"
  using assms by (simp add: getComputedStyle.simps(2) [of P now e sc] fillCache_def)

lemma getComputedStyle_miss:
  assumes "cache sc e = None" and "windowGetComputedStyle P e = Inr cs"
  shows "getComputedStyle P now (Some e) sc =
           (cacheImportantProperties cs,
            sc\<lparr>cache := (cache sc)(e \<mapsto> (cacheImportantProperties cs, now)),
               styleReads := Suc (styleReads sc)\<rparr>)"
  using assms
  by (simp add: getComputedStyle.simps(2) [of P now e sc] fillCache_def maxCacheAge_def)

lemma getComputedStyle_throws:
  assumes "cache sc e = None" and "windowGetComputedStyle P e = Inl err"
  shows "getComputedStyle P now (Some e) sc = ([], sc\<lparr>styleReads := Suc (styleReads sc)\<rparr>)"
  using assms by (simp add: getComputedStyle.simps(2) [of P now e sc] fillCache_def)

lemma getComputedStyle_stale:
  assumes "cache sc e = Some (st, ts)" and "now - ts > maxCacheAge"
  shows "getComputedStyle P now (Some e) sc
           = getComputedStyle P now (Some e) (sc\<lparr>cache := (cache sc)(e := None)\<rparr>)"
  using assms by (simp add: getComputedStyle.simps(2) [of P now e sc] fillCache_def)

text \<open>
  Claim C3, as the code has it. For an element that the cache does not hold yet and
  whose computed style the platform reads without throwing, the first lookup reads
  the platform once and stores the snapshot with the time. A second lookup no more
  than 30000 ms after the first returns that snapshot and leaves the cache and the
  count of platform reads as they are, whatever the platform would answer. A lookup
  later than that does not return the stored snapshot: the entry is deleted and the
  platform is read again; the fresh snapshot is stored and returned, or, when this
  read throws, the result is the empty mapping and nothing is stored.
\<close>

theorem snapshot_cached_for_max_age:
  assumes first: "cache sc e = None"
    and reads: "windowGetComputedStyle P e = Inr cs"
    and cached: "sc1 = snd (getComputedStyle P t1 (Some e) sc)"
  shows "getComputedStyle P t1 (Some e) sc = (cacheImportantProperties cs, sc1) \<and>
         styleReads sc1 = Suc (styleReads sc) \<and>
         cache sc1 e = Some (cacheImportantProperties cs, t1) \<and>
         (t2 - t1 \<le> maxCacheAge \<longrightarrow>
            getComputedStyle P' t2 (Some e) sc1 = (cacheImportantProperties cs, sc1)) \<and>
         (t2 - t1 > maxCacheAge \<and> windowGetComputedStyle P' e = Inr cs' \<longrightarrow>
            getComputedStyle P' t2 (Some e) sc1
              = (cacheImportantProperties cs',
                 sc1\<lparr>cache := (cache sc1)(e \<mapsto> (cacheImportantProperties cs', t2)),
                     styleReads := Suc (styleReads sc1)\<rparr>)) \<and>
         (t2 - t1 > maxCacheAge \<and> windowGetComputedStyle P' e = Inl err \<longrightarrow>
            getComputedStyle P' t2 (Some e) sc1
              = ([], sc1\<lparr>cache := (cache sc1)(e := None),
                         styleReads := Suc (styleReads sc1)\<rparr>))"
proof -
  let ?snap = "cacheImportantProperties cs"
  from getComputedStyle_miss [OF first reads, of t1] cached
  have call1: "getComputedStyle P t1 (Some e) sc = (?snap, sc1)"
    and sc1: "sc1 = sc\<lparr>cache := (cache sc)(e \<mapsto> (?snap, t1)),
                        styleReads := Suc (styleReads sc)\<rparr>"
    by simp_all
  from sc1 have entry: "cache sc1 e = Some (?snap, t1)" by simp
  from sc1 have count: "styleReads sc1 = Suc (styleReads sc)" by simp
  have hit: "t2 - t1 \<le> maxCacheAge \<longrightarrow> getComputedStyle P' t2 (Some e) sc1 = (?snap, sc1)"
    using getComputedStyle_hit [OF entry] by blast
  let ?del = "sc1\<lparr>cache := (cache sc1)(e := None)\<rparr>"
  have gone: "cache ?del e = None" by simp
  have fresh: "t2 - t1 > maxCacheAge \<and> windowGetComputedStyle P' e = Inr cs' \<longrightarrow>
      getComputedStyle P' t2 (Some e) sc1
        = (cacheImportantProperties cs',
           sc1\<lparr>cache := (cache sc1)(e \<mapsto> (cacheImportantProperties cs', t2)),
               styleReads := Suc (styleReads sc1)\<rparr>)"
  proof
    assume h: "t2 - t1 > maxCacheAge \<and> windowGetComputedStyle P' e = Inr cs'"
    then have "getComputedStyle P' t2 (Some e) sc1 = getComputedStyle P' t2 (Some e) ?del"
      using getComputedStyle_stale [OF entry] by blast
    also from h have "\<dots> = (cacheImportantProperties cs',
        ?del\<lparr>cache := (cache ?del)(e \<mapsto> (cacheImportantProperties cs', t2)),
             styleReads := Suc (styleReads ?del)\<rparr>)"
      using getComputedStyle_miss [OF gone] by blast
    finally show "getComputedStyle P' t2 (Some e) sc1
        = (cacheImportantProperties cs',
           sc1\<lparr>cache := (cache sc1)(e \<mapsto> (cacheImportantProperties cs', t2)),
               styleReads := Suc (styleReads sc1)\<rparr>)"
      by simp
  qed
  have failed: "t2 - t1 > maxCacheAge \<and> windowGetComputedStyle P' e = Inl err \<longrightarrow>
      getComputedStyle P' t2 (Some e) sc1
        = ([], sc1\<lparr>cache := (cache sc1)(e := None), styleReads := Suc (styleReads sc1)\<rparr>)"
  proof
    assume h: "t2 - t1 > maxCacheAge \<and> windowGetComputedStyle P' e = Inl err"
    then have "getComputedStyle P' t2 (Some e) sc1 = getComputedStyle P' t2 (Some e) ?del"
      using getComputedStyle_stale [OF entry] by blast
    also from h have "\<dots> = ([], ?del\<lparr>styleReads := Suc (styleReads ?del)\<rparr>)"
      using getComputedStyle_throws [OF gone] by blast
    finally show "getComputedStyle P' t2 (Some e) sc1
        = ([], sc1\<lparr>cache := (cache sc1)(e := None), styleReads := Suc (styleReads sc1)\<rparr>)"
      by simp
  qed
  from call1 count entry hit fresh failed show ?thesis by blast
qed

theorem snapshot_cached_for_max_age_witness:
  "cache emptyCache 3 = None \<and>
   fst (getComputedStyle examplePage 0 (Some 3) emptyCache)
     = [(''display'', ''flex''), (''margin'', ''0px''), (''color'', ''rgb(255, 0, 0)'')] \<and>
   getComputedStyle failingPage 30000 (Some 3)
       (snd (getComputedStyle examplePage 0 (Some 3) emptyCache))
     = ([(''display'', ''flex''), (''margin'', ''0px''), (''color'', ''rgb(255, 0, 0)'')],
        snd (getComputedStyle examplePage 0 (Some 3) emptyCache)) \<and>
   styleReads (snd (getComputedStyle examplePage 0 (Some 3) emptyCache)) = 1 \<and>
   styleReads (snd (getComputedStyle examplePage 30001 (Some 3)
                      (snd (getComputedStyle examplePage 0 (Some 3) emptyCache)))) = 2 \<and>
   fst (getComputedStyle failingPage 30001 (Some 3)
          (snd (getComputedStyle examplePage 0 (Some 3) emptyCache))) = []"
proof -
  define sc1 where "sc1 = snd (getComputedStyle examplePage 0 (Some 3) emptyCache)"
  have first: "cache emptyCache 3 = None"
    by (simp add: emptyCache_def)
  have reads: "windowGetComputedStyle examplePage 3 = Inr exampleComputed"
    by (simp add: examplePage_def)
  have throws: "windowGetComputedStyle failingPage 3 = Inl ''TypeError''"
    by (simp add: failingPage_def)
  have snap: "cacheImportantProperties exampleComputed
      = [(''display'', ''flex''), (''margin'', ''0px''), (''color'', ''rgb(255, 0, 0)'')]"
    by code_simp
  have zero: "styleReads emptyCache = 0"
    by (simp add: emptyCache_def)
  have soon: "(30000::int) - 0 \<le> maxCacheAge" and late: "(30001::int) - 0 > maxCacheAge"
    by (simp_all add: maxCacheAge_def)
  note inst = snapshot_cached_for_max_age [OF first reads sc1_def]
  from inst [of 30000 failingPage] soon
  have a: "getComputedStyle examplePage 0 (Some 3) emptyCache
             = (cacheImportantProperties exampleComputed, sc1)"
    and b: "styleReads sc1 = Suc (styleReads emptyCache)"
    and c: "getComputedStyle failingPage 30000 (Some 3) sc1
             = (cacheImportantProperties exampleComputed, sc1)"
    by blast+
  from inst [of 30001 examplePage exampleComputed] late reads
  have d: "getComputedStyle examplePage 30001 (Some 3) sc1
      = (cacheImportantProperties exampleComputed,
         sc1\<lparr>cache := (cache sc1)(3 \<mapsto> (cacheImportantProperties exampleComputed, 30001)),
             styleReads := Suc (styleReads sc1)\<rparr>)"
    by blast
  from inst [of 30001 failingPage _ "''TypeError''"] late throws
  have e: "getComputedStyle failingPage 30001 (Some 3) sc1
      = ([], sc1\<lparr>cache := (cache sc1)(3 := None), styleReads := Suc (styleReads sc1)\<rparr>)"
    by blast
  show ?thesis
    unfolding sc1_def [symmetric]
    by (simp add: first a b c d e zero snap)
qed

text \<open>
  The claim as the specification states it fails for an element whose style read
  throws: nothing is stored, and a second lookup one second later reads the platform
  again.
\<close>

theorem second_lookup_reads_again:
  "windowGetComputedStyle failingPage 3 = Inl ''TypeError'' \<and>
   (1000::int) - 0 \<le> maxCacheAge \<and>
   styleReads (snd (getComputedStyle failingPage 0 (Some 3) emptyCache)) = 1 \<and>
   styleReads (snd (getComputedStyle failingPage 1000 (Some 3)
                      (snd (getComputedStyle failingPage 0 (Some 3) emptyCache)))) = 2"
proof -
  have t: "windowGetComputedStyle failingPage 3 = Inl ''TypeError''"
    by (simp add: failingPage_def)
  have c0: "cache emptyCache 3 = None"
    by (simp add: emptyCache_def)
  have c1: "cache (emptyCache\<lparr>styleReads := Suc (styleReads emptyCache)\<rparr>) 3 = None"
    by (simp add: emptyCache_def)
  show ?thesis
    by (simp add: t getComputedStyle_throws [OF c0 t] getComputedStyle_throws [OF c1 t]
        maxCacheAge_def) (simp add: emptyCache_def)
qed

section \<open>The inspection result\<close>

lemma categorizeStyles_empty: "categorizeStyles [] = []"
  by (simp add: categorizeStyles_def categoryDataOf_def cssCategories_def)

lemma extractCSSInfo_element:
  "extractCSSInfo P now (Some e) sc =
     (case tagName (nodes P e) of
        Undefined \<Rightarrow> (basicInfo P (Some e),
                  snd (getSelector P (Some e) (snd (getComputedStyle P now (Some e) sc))))
      | Obj d \<Rightarrow> (basicInfo P (Some e),
                  snd (getSelector P (Some e) (snd (getComputedStyle P now (Some e) sc))))
      | Str t \<Rightarrow>
          (Inr \<lparr>element =
              \<lparr>elTagName = toLowerCase t, elClassName = orEmpty (className (nodes P e)),
               elId = orEmpty (ident (nodes P e)),
               elSelector = fst (getSelector P (Some e) (snd (getComputedStyle P now (Some e) sc)))\<rparr>,
            computed = fst (getComputedStyle P now (Some e) sc),
            inline = extractInlineStyles P e,
            categorized = categorizeStyles (fst (getComputedStyle P now (Some e) sc))\<rparr>,
           snd (getSelector P (Some e) (snd (getComputedStyle P now (Some e) sc)))))"
  by (simp add: extractCSSInfo_def split_beta Let_def split: jsValue.splits)

lemma extractCSSInfo_raises:
  assumes "isObject (tagName (nodes P e))"
  shows "isl (fst (extractCSSInfo P now (Some e) sc))"
  using assms
  by (cases "tagName (nodes P e)")
     (simp_all add: extractCSSInfo_element basicInfo_def isObject_def)

text \<open>
  Claim C7, as the code has it. For \<open>null\<close> and for every node whose tag name is a
  string or absent, \<open>extractCSSInfo\<close> does not raise. For \<open>null\<close>, and for a node
  without a tag name, the result is the degraded one: the tag name \<open>unknown\<close>, the
  class name and the id of the node (empty strings for \<open>null\<close>), the selector
  \<open>unknown\<close>, and empty computed, inline and categorized mappings. For an element with
  a tag name, each part is what its own step gives: the snapshot of the cache, its
  categorisation, the selector of \<open>getSelector\<close> and the inline styles. When the
  style read throws, the computed and categorized mappings are empty while the inline
  styles and the selector are still those of the element.
\<close>

theorem extractCSSInfo_degrades_by_step:
  "extractCSSInfo P now None sc
     = (Inr \<lparr>element = \<lparr>elTagName = ''unknown'', elClassName = Str [], elId = Str [],
                         elSelector = ''unknown''\<rparr>,
            computed = [], inline = [], categorized = []\<rparr>, sc) \<and>
   (tagName (nodes P e) = Undefined \<longrightarrow>
      fst (extractCSSInfo P now (Some e) sc)
        = Inr \<lparr>element = \<lparr>elTagName = ''unknown'',
                            elClassName = orEmpty (className (nodes P e)),
                            elId = orEmpty (ident (nodes P e)),
                            elSelector = ''unknown''\<rparr>,
               computed = [], inline = [], categorized = []\<rparr>) \<and>
   (tagName (nodes P e) = Str t \<longrightarrow>
      fst (extractCSSInfo P now (Some e) sc)
        = Inr \<lparr>element =
                 \<lparr>elTagName = toLowerCase t,
                  elClassName = orEmpty (className (nodes P e)),
                  elId = orEmpty (ident (nodes P e)),
                  elSelector = fst (getSelector P (Some e)
                                      (snd (getComputedStyle P now (Some e) sc)))\<rparr>,
               computed = fst (getComputedStyle P now (Some e) sc),
               inline = extractInlineStyles P e,
               categorized = categorizeStyles (fst (getComputedStyle P now (Some e) sc))\<rparr>) \<and>
   (tagName (nodes P e) = Str t \<and> cache sc e = None \<and> selectorCache sc e = None \<and>
    windowGetComputedStyle P e = Inl err \<longrightarrow>
      fst (extractCSSInfo P now (Some e) sc)
        = Inr \<lparr>element =
                 \<lparr>elTagName = toLowerCase t,
                  elClassName = orEmpty (className (nodes P e)),
                  elId = orEmpty (ident (nodes P e)),
                  elSelector = generateOptimizedSelector P (Some e)\<rparr>,
               computed = [],
               inline = extractInlineStyles P e,
               categorized = []\<rparr>) \<and>
   \<not> isl (fst (extractCSSInfo P now None sc)) \<and>
   (\<not> isObject (tagName (nodes P e)) \<longrightarrow> \<not> isl (fst (extractCSSInfo P now (Some e) sc)))"
proof (intro conjI impI)
  show "extractCSSInfo P now None sc
     = (Inr \<lparr>element = \<lparr>elTagName = ''unknown'', elClassName = Str [], elId = Str [],
                         elSelector = ''unknown''\<rparr>,
            computed = [], inline = [], categorized = []\<rparr>, sc)"
    by (simp add: extractCSSInfo_def basicInfo_def)
  then show "\<not> isl (fst (extractCSSInfo P now None sc))"
    by simp
next
  assume "tagName (nodes P e) = Undefined"
  then show "fst (extractCSSInfo P now (Some e) sc)
        = Inr \<lparr>element = \<lparr>elTagName = ''unknown'',
                            elClassName = orEmpty (className (nodes P e)),
                            elId = orEmpty (ident (nodes P e)),
                            elSelector = ''unknown''\<rparr>,
               computed = [], inline = [], categorized = []\<rparr>"
    by (simp add: extractCSSInfo_element basicInfo_def)
next
  assume "tagName (nodes P e) = Str t"
  then show "fst (extractCSSInfo P now (Some e) sc)
        = Inr \<lparr>element =
                 \<lparr>elTagName = toLowerCase t,
                  elClassName = orEmpty (className (nodes P e)),
                  elId = orEmpty (ident (nodes P e)),
                  elSelector = fst (getSelector P (Some e)
                                      (snd (getComputedStyle P now (Some e) sc)))\<rparr>,
               computed = fst (getComputedStyle P now (Some e) sc),
               inline = extractInlineStyles P e,
               categorized = categorizeStyles (fst (getComputedStyle P now (Some e) sc))\<rparr>"
    by (simp add: extractCSSInfo_element)
next
  assume h: "tagName (nodes P e) = Str t \<and> cache sc e = None \<and> selectorCache sc e = None \<and>
    windowGetComputedStyle P e = Inl err"
  then have g: "getComputedStyle P now (Some e) sc = ([], sc\<lparr>styleReads := Suc (styleReads sc)\<rparr>)"
    using getComputedStyle_throws by blast
  from h g show "fst (extractCSSInfo P now (Some e) sc)
        = Inr \<lparr>element =
                 \<lparr>elTagName = toLowerCase t,
                  elClassName = orEmpty (className (nodes P e)),
                  elId = orEmpty (ident (nodes P e)),
                  elSelector = generateOptimizedSelector P (Some e)\<rparr>,
               computed = [],
               inline = extractInlineStyles P e,
               categorized = []\<rparr>"
    by (simp add: extractCSSInfo_element getSelector_def categorizeStyles_empty)
next
  assume "\<not> isObject (tagName (nodes P e))"
  then show "\<not> isl (fst (extractCSSInfo P now (Some e) sc))"
    by (cases "tagName (nodes P e)")
       (simp_all add: extractCSSInfo_element basicInfo_def isObject_def)
qed

theorem extractCSSInfo_degrades_by_step_witness:
  "fst (extractCSSInfo examplePage 0 None emptyCache)
     = Inr \<lparr>element = \<lparr>elTagName = ''unknown'', elClassName = Str [], elId = Str [],
                         elSelector = ''unknown''\<rparr>,
            computed = [], inline = [], categorized = []\<rparr> \<and>
   fst (extractCSSInfo examplePage 0 (Some 0) emptyCache)
     = Inr \<lparr>element = \<lparr>elTagName = ''unknown'', elClassName = Str [], elId = Str [],
                         elSelector = ''unknown''\<rparr>,
            computed = [], inline = [], categorized = []\<rparr> \<and>
   fst (extractCSSInfo failingPage 0 (Some 3) emptyCache)
     = Inr \<lparr>element = \<lparr>elTagName = ''div'', elClassName = Str [], elId = Str ''a'',
                         elSelector = ''#a''\<rparr>,
            computed = [], inline = [(''color'', ''red''), (''margin'', ''0px'')],
            categorized = []\<rparr> \<and>
   \<not> isl (fst (extractCSSInfo examplePage 0 (Some 3) emptyCache))"
proof -
  have tag0: "tagName (nodes examplePage 0) = Undefined"
    and props0: "orEmpty (className (nodes examplePage 0)) = Str []"
      "orEmpty (ident (nodes examplePage 0)) = Str []"
    by (simp_all add: examplePage_def exampleNodes_def noNode_def orEmpty_def truthy_def)
  have pre: "tagName (nodes failingPage 3) = Str ''DIV'' \<and> cache emptyCache 3 = None \<and>
      selectorCache emptyCache 3 = None \<and> windowGetComputedStyle failingPage 3 = Inl ''TypeError''"
    by (simp add: failingPage_def examplePage_def exampleNodes_def noNode_def emptyCache_def)
  have props3: "orEmpty (className (nodes failingPage 3)) = Str []"
    "orEmpty (ident (nodes failingPage 3)) = Str ''a''"
    "toLowerCase ''DIV'' = ''div''"
    by (simp_all add: failingPage_def examplePage_def exampleNodes_def noNode_def orEmpty_def
        truthy_def toLowerCase_def toLowerChar_def upperCaseUnits_def lowerCaseUnits_def)
  have tag3: "\<not> isObject (tagName (nodes examplePage 3))"
    by (simp add: examplePage_def exampleNodes_def noNode_def isObject_def)
  have inl: "extractInlineStyles failingPage 3 = [(''color'', ''red''), (''margin'', ''0px'')]"
    by code_simp
  have sel: "generateOptimizedSelector failingPage (Some 3) = ''#a''"
    by code_simp
  note thm0 = extractCSSInfo_degrades_by_step [of examplePage 0 emptyCache 0]
  from thm0
  have a: "extractCSSInfo examplePage 0 None emptyCache
     = (Inr \<lparr>element = \<lparr>elTagName = ''unknown'', elClassName = Str [], elId = Str [],
                         elSelector = ''unknown''\<rparr>,
            computed = [], inline = [], categorized = []\<rparr>, emptyCache)"
    by (rule conjunct1)
  from thm0 tag0
  have b: "fst (extractCSSInfo examplePage 0 (Some 0) emptyCache)
        = Inr \<lparr>element = \<lparr>elTagName = ''unknown'',
                            elClassName = orEmpty (className (nodes examplePage 0)),
                            elId = orEmpty (ident (nodes examplePage 0)),
                            elSelector = ''unknown''\<rparr>,
               computed = [], inline = [], categorized = []\<rparr>"
    by blast
  from extractCSSInfo_degrades_by_step
         [of failingPage 0 emptyCache 3 "''DIV''" "''TypeError''"] pre
  have c: "fst (extractCSSInfo failingPage 0 (Some 3) emptyCache)
        = Inr \<lparr>element =
                 \<lparr>elTagName = toLowerCase ''DIV'',
                  elClassName = orEmpty (className (nodes failingPage 3)),
                  elId = orEmpty (ident (nodes failingPage 3)),
                  elSelector = generateOptimizedSelector failingPage (Some 3)\<rparr>,
               computed = [],
               inline = extractInlineStyles failingPage 3,
               categorized = []\<rparr>"
    by blast
  from extractCSSInfo_degrades_by_step [of examplePage 0 emptyCache 3] tag3
  have d: "\<not> isl (fst (extractCSSInfo examplePage 0 (Some 3) emptyCache))"
    by blast
  show ?thesis
    unfolding b c by (simp add: a props0 props3 inl sel d)
qed

text \<open>
  The claim as the specification states it fails when the style read throws: the
  result still has the element's selector and inline styles, so it is not the
  degraded result.
\<close>

theorem style_read_failure_keeps_selector:
  "windowGetComputedStyle failingPage 3 = Inl ''TypeError'' \<and>
   fst (extractCSSInfo failingPage 0 (Some 3) emptyCache)
     = Inr \<lparr>element = \<lparr>elTagName = ''div'', elClassName = Str [], elId = Str ''a'',
                         elSelector = ''#a''\<rparr>,
            computed = [], inline = [(''color'', ''red''), (''margin'', ''0px'')],
            categorized = []\<rparr> \<and>
   ''#a'' \<noteq> ''unknown'' \<and>
   [(''color'', ''red''), (''margin'', ''0px'')] \<noteq> ([] :: styles)"
proof -
  have throws: "windowGetComputedStyle failingPage 3 = Inl ''TypeError''"
    by (simp add: failingPage_def)
  have c0: "cache emptyCache 3 = None"
    by (simp add: emptyCache_def)
  have sc: "selectorCache emptyCache 3 = None"
    by (simp add: emptyCache_def)
  have tag: "tagName (nodes failingPage 3) = Str ''DIV''"
    by (simp add: failingPage_def examplePage_def exampleNodes_def noNode_def)
  have props3: "orEmpty (className (nodes failingPage 3)) = Str []"
    "orEmpty (ident (nodes failingPage 3)) = Str ''a''"
    "toLowerCase ''DIV'' = ''div''"
    by (simp_all add: failingPage_def examplePage_def exampleNodes_def noNode_def orEmpty_def
        truthy_def toLowerCase_def toLowerChar_def upperCaseUnits_def lowerCaseUnits_def)
  have inl: "extractInlineStyles failingPage 3 = [(''color'', ''red''), (''margin'', ''0px'')]"
    by code_simp
  have sel: "generateOptimizedSelector failingPage (Some 3) = ''#a''"
    by code_simp
  have r: "fst (extractCSSInfo failingPage 0 (Some 3) emptyCache)
      = Inr \<lparr>element = \<lparr>elTagName = ''div'', elClassName = Str [], elId = Str ''a'',
                          elSelector = ''#a''\<rparr>,
             computed = [], inline = [(''color'', ''red''), (''margin'', ''0px'')],
             categorized = []\<rparr>"
    by (simp add: extractCSSInfo_element tag getComputedStyle_throws [OF c0 throws] inl sel
        getSelector_def sc categorizeStyles_empty props3)
  show ?thesis
    unfolding r by (simp add: throws)
qed

text \<open>The failure branch is outside the wrapper: for a form whose control is named
  \<open>tagName\<close> the method raises.\<close>

lemma extractCSSInfo_raises_for_form:
  "isl (fst (extractCSSInfo examplePage 0 (Some 9) emptyCache))"
  by (rule extractCSSInfo_raises)
     (simp add: examplePage_def exampleNodes_def noNode_def isObject_def)

section \<open>The selector of no element\<close>

text \<open>
  Claim C9, as the code has it. \<open>generateOptimizedSelector\<close> returns \<open>body\<close> for the
  document body and for \<open>null\<close> or \<open>undefined\<close>. \<open>getSelector\<close> returns \<open>body\<close> for
  the document body when it has no cached selector yet, and caches it; for \<open>null\<close> or
  \<open>undefined\<close> it returns \<open>unknown\<close> and leaves the cache as it is, since the weak map
  refuses the key.
\<close>

theorem getSelector_null_unknown:
  "generateOptimizedSelector P None = ''body'' \<and>
   (body P = Some b \<longrightarrow> generateOptimizedSelector P (Some b) = ''body'') \<and>
   getSelector P None sc = (''unknown'', sc) \<and>
   (body P = Some b \<and> selectorCache sc b = None \<longrightarrow>
      fst (getSelector P (Some b) sc) = ''body'' \<and>
      selectorCache (snd (getSelector P (Some b) sc)) b = Some ''body'')"
  by (simp add: generateOptimizedSelector_def getSelector_def)

theorem getSelector_null_unknown_witness:
  "generateOptimizedSelector examplePage None = ''body'' \<and>
   generateOptimizedSelector examplePage (Some 2) = ''body'' \<and>
   getSelector examplePage None emptyCache = (''unknown'', emptyCache) \<and>
   fst (getSelector examplePage (Some 2) emptyCache) = ''body''"
proof -
  have pre: "body examplePage = Some 2 \<and> selectorCache emptyCache 2 = None"
    by (simp add: examplePage_def emptyCache_def)
  from getSelector_null_unknown [of examplePage 2 emptyCache] pre
  show ?thesis by simp
qed

text \<open>The claim as the specification states it fails for \<open>getSelector(null)\<close>.\<close>

theorem getSelector_null_not_body:
  "fst (getSelector examplePage None emptyCache) \<noteq> ''body''"
  by (simp add: getSelector_def)

section \<open>Copying what cannot be copied\<close>

text \<open>
  An error of \<open>copyToClipboard\<close> reaches the error handler with the type
  \<open>CLIPBOARD_WRITE_FAILED\<close> and a context without a text. Until the same error has
  been counted three times, the recovery hands \<open>No content to copy.\<close> to the
  platform's copy command; afterwards the error is suppressed and the clipboard is
  left alone. Errors of other types never touch the clipboard.
\<close>

lemma handleError_recovers:
  assumes "errorCounts w (''CLIPBOARD_WRITE_FAILED_'' @ message) < maxRetries"
  shows "copyAttempts (handleError C message ''CLIPBOARD_WRITE_FAILED'' None w)
           = copyAttempts w @ [''No content to copy.''] \<and>
         (execCommandCopy C ''No content to copy.'' \<longrightarrow>
            clipboard (handleError C message ''CLIPBOARD_WRITE_FAILED'' None w)
              = Some ''No content to copy.'')"
  using assms
  by (simp add: handleError_def attemptRecovery_def recoverClipboardAccess_def execCopy_def Let_def)

lemma handleError_suppressed:
  assumes "errorCounts w (errorType @ ''_'' @ message) \<ge> maxRetries"
  shows "copyAttempts (handleError C message errorType contextText w) = copyAttempts w \<and>
         clipboard (handleError C message errorType contextText w) = clipboard w"
  using assms by (simp add: handleError_def Let_def)

lemma handleError_other:
  assumes "errorType \<noteq> ''CLIPBOARD_WRITE_FAILED''"
  shows "copyAttempts (handleError C message errorType contextText w) = copyAttempts w \<and>
         clipboard (handleError C message errorType contextText w) = clipboard w \<and>
         errorCounts (handleError C message errorType contextText w)
           = (errorCounts w)(errorType @ ''_'' @ message
                := Suc (errorCounts w (errorType @ ''_'' @ message)))"
  using assms by (simp add: handleError_def attemptRecovery_def Let_def)

lemma copy_unknown_type_recovers:
  assumes "ty \<noteq> ''selector''" "ty \<noteq> ''all''" "ty \<noteq> ''computed''" "ty \<noteq> ''inline''"
    and "errorCounts w ''CLIPBOARD_WRITE_FAILED_Unknown copy type.'' < maxRetries"
  shows "fst (copyToClipboard C lc (Some d) ty w) = Inl ''Unknown copy type.'' \<and>
         copyAttempts (snd (copyToClipboard C lc (Some d) ty w))
           = copyAttempts w @ [''No content to copy.'']"
proof -
  from assms(1-4) have cb: "copyCallback C lc (Some d) ty w = (Inl ''Unknown copy type.'', w)"
    by (simp add: copyCallback_def textToCopyOf_def)
  from assms(5) have "errorCounts w (''CLIPBOARD_WRITE_FAILED_'' @ ''Unknown copy type.'') < maxRetries"
    by simp
  from handleError_recovers [OF this] cb show ?thesis
    by (simp add: copyToClipboard_def)
qed

lemma copy_inline_empty_recovers:
  assumes "inline d = []"
    and "errorCounts w ''CLIPBOARD_WRITE_FAILED_No inline styles found.'' < maxRetries"
  shows "fst (copyToClipboard C lc (Some d) ''inline'' w) = Inl ''No inline styles found.'' \<and>
         copyAttempts (snd (copyToClipboard C lc (Some d) ''inline'' w))
           = copyAttempts w @ [''No content to copy.'']"
proof -
  let ?w1 = "handleError C ''No inline styles found.'' ''INLINE_CSS_GENERATION_ERROR'' None w"
  from assms(1) have cb: "copyCallback C lc (Some d) ''inline'' w = (Inl ''No inline styles found.'', ?w1)"
    by (simp add: copyCallback_def textToCopyOf_def generateInlineCSSText_def)
  have other: "''INLINE_CSS_GENERATION_ERROR'' \<noteq> ''CLIPBOARD_WRITE_FAILED''"
    by simp
  from handleError_other [OF other, of C "''No inline styles found.''" None w] assms(2)
  have w1: "copyAttempts ?w1 = copyAttempts w"
    and "errorCounts ?w1 (''CLIPBOARD_WRITE_FAILED_'' @ ''No inline styles found.'') < maxRetries"
    by simp_all
  from handleError_recovers [OF this(2)] cb w1 show ?thesis
    by (simp add: copyToClipboard_def)
qed

text \<open>
  Claim C4, evaluated. A result without inline styles, copied with the mode
  \<open>inline\<close> for the first time: the call fails with the error of the missing inline
  styles, and the error handler's recovery has handed the text \<open>No content to copy.\<close>
  to the platform's copy command, which has put it on the clipboard.
\<close>

theorem copy_inline_without_inline_styles:
  "inline exampleInfo = [] \<and>
   fst (copyToClipboard exampleClipboard codeUnitCompare (Some exampleInfo) ''inline'' freshWorld)
     = Inl ''No inline styles found.'' \<and>
   copyAttempts (snd (copyToClipboard exampleClipboard codeUnitCompare (Some exampleInfo)
                        ''inline'' freshWorld))
     = [''No content to copy.''] \<and>
   clipboard (snd (copyToClipboard exampleClipboard codeUnitCompare (Some exampleInfo)
                     ''inline'' freshWorld))
     = Some ''No content to copy.''"
  by code_simp

text \<open>
  Claim C10, evaluated. A mode that is none of the four, for the first time: the call
  fails with the error of the unknown copy type, and the recovery has written the
  clipboard in the same way.
\<close>

theorem copy_unknown_type:
  "fst (copyToClipboard exampleClipboard codeUnitCompare (Some exampleInfo) ''css'' freshWorld)
     = Inl ''Unknown copy type.'' \<and>
   copyAttempts (snd (copyToClipboard exampleClipboard codeUnitCompare (Some exampleInfo)
                        ''css'' freshWorld))
     = [''No content to copy.''] \<and>
   clipboard (snd (copyToClipboard exampleClipboard codeUnitCompare (Some exampleInfo)
                     ''css'' freshWorld))
     = Some ''No content to copy.''"
  by code_simp

end
